theory Spec2Isabelle
  imports Main "HOL-Library.AList"
begin

section \<open>JavaScript values\<close>

text \<open>
  The values that flow through \<^verbatim>\<open>src/index.js\<close>. Numbers are the integers (the
  library only counts, increments and stores epoch milliseconds), with \<open>JNaN\<close> for the
  one non-number the code can produce. A \<open>Date\<close> object is its epoch-millisecond time
  value, \<open>JInvalidDate\<close> the Date whose time value is NaN. An object is an association
  list in insertion order: \<open>obj_get\<close> reads the first binding of a name and \<open>obj_keys\<close>
  lists each name once, so every list denotes an object. \<open>JModel ns d\<close> is an instance of
  a compiled model class: \<open>d\<close> is its \<^verbatim>\<open>_data\<close> and \<open>ns\<close> the schema property names for
  which the constructor installed accessors. \<open>JBuiltin n\<close> is the member \<open>n\<close> that every
  plain object inherits from \<^verbatim>\<open>Object.prototype\<close>: a function, or the prototype itself for
  \<^verbatim>\<open>__proto__\<close>. Integer-like names are enumerated in insertion order like the others.
\<close>

datatype jsval =
    JUndefined
  | JNull
  | JBool bool
  | JNum int
  | JNaN
  | JStr string
  | JDate int
  | JInvalidDate
  | JObj "(string \<times> jsval) list"
  | JArr "jsval list"
  | JModel "string list" "(string \<times> jsval) list"
  | JBuiltin string

type_synonym jsobj = "(string \<times> jsval) list"

text \<open>The errors the code can raise: its own \<^verbatim>\<open>DynormError\<close> (line 22), the plain
  \<^verbatim>\<open>Error\<close> of \<^verbatim>\<open>Model.find\<close>, the runtime's \<^verbatim>\<open>TypeError\<close> and \<^verbatim>\<open>RangeError\<close>, and a
  failure reported by the store client.\<close>

datatype error =
    DynormError string
  | Error string
  | TypeError
  | RangeError
  | StoreError string

fun truthy :: "jsval \<Rightarrow> bool" where
  "truthy JUndefined = False"
| "truthy JNull = False"
| "truthy (JBool b) = b"
| "truthy (JNum n) = (n \<noteq> 0)"
| "truthy JNaN = False"
| "truthy (JStr s) = (s \<noteq> [])"
| "truthy _ = True"

definition obj_get :: "('k \<times> jsval) list \<Rightarrow> 'k \<Rightarrow> jsval" where
  "obj_get obj k = (case map_of obj k of None \<Rightarrow> JUndefined | Some v \<Rightarrow> v)"

definition obj_set :: "('k \<times> 'v) list \<Rightarrow> 'k \<Rightarrow> 'v \<Rightarrow> ('k \<times> 'v) list" where
  "obj_set obj k v = AList.update k v obj"

definition obj_delete :: "('k \<times> 'v) list \<Rightarrow> 'k \<Rightarrow> ('k \<times> 'v) list" where
  "obj_delete obj k = AList.delete k obj"

definition obj_keys :: "('k \<times> 'v) list \<Rightarrow> 'k list" where
  "obj_keys obj = remdups (map fst obj)"

text \<open>The names of \<^verbatim>\<open>Object.prototype\<close>. \<open>obj_get\<close> is the value an object holds under a name
  of its own; \<open>obj_read\<close> is \<^verbatim>\<open>obj[k]\<close> for a plain object and any name, which falls back on
  the inherited member. The record transforms and \<open>js_get\<close> read through \<open>obj_read\<close>. The
  other operations read their data through \<open>obj_get\<close>: there the names are those of a
  schema without a property called like an inherited member. An assignment to
  \<^verbatim>\<open>__proto__\<close>, which would replace the prototype, is not modelled.\<close>

definition Object_prototype :: "string list" where
  "Object_prototype =
     [''constructor'', ''__defineGetter__'', ''__defineSetter__'', ''hasOwnProperty'',
      ''__lookupGetter__'', ''__lookupSetter__'', ''isPrototypeOf'', ''propertyIsEnumerable'',
      ''toString'', ''valueOf'', ''__proto__'', ''toLocaleString'']"

definition obj_read :: "jsobj \<Rightarrow> string \<Rightarrow> jsval" where
  "obj_read obj k =
     (case map_of obj k of
        Some v \<Rightarrow> v
      | None \<Rightarrow> if k \<in> set Object_prototype then JBuiltin k else JUndefined)"

text \<open>A loop over a list of names whose body may throw: the first error ends it.\<close>

fun for_in :: "('k \<Rightarrow> 's \<Rightarrow> error + 's) \<Rightarrow> 'k list \<Rightarrow> 's \<Rightarrow> error + 's" where
  "for_in body [] s = Inr s"
| "for_in body (k # ks) s = (case body k s of Inl e \<Rightarrow> Inl e | Inr s' \<Rightarrow> for_in body ks s')"

text \<open>\<^verbatim>\<open>x[v]\<close> for a value \<open>x\<close>: reading a property of \<^verbatim>\<open>undefined\<close> or \<^verbatim>\<open>null\<close> throws. An
  entity answers for a schema property through its accessor (line 294). The indices and
  the length of a string or an array, the fields and methods of an entity and what a
  value other than a plain object inherits are not among the names read here.\<close>

fun js_get :: "jsval \<Rightarrow> string \<Rightarrow> error + jsval" where
  "js_get JUndefined v = Inl TypeError"
| "js_get JNull v = Inl TypeError"
| "js_get (JObj obj) v = Inr (obj_read obj v)"
| "js_get (JModel ns d) v = Inr (if v \<in> set ns then obj_read d v else JUndefined)"
| "js_get _ v = Inr JUndefined"

text \<open>\<^verbatim>\<open>new Date(x)\<close>. A number is clipped to the range of time values; what the runtime
  makes of a string or an object is the parameter \<open>parse\<close>.\<close>

fun new_Date :: "(jsval \<Rightarrow> int option) \<Rightarrow> jsval \<Rightarrow> jsval" where
  "new_Date parse (JNum n) = (if \<bar>n\<bar> \<le> 8640000000000000 then JDate n else JInvalidDate)"
| "new_Date parse JNaN = JInvalidDate"
| "new_Date parse JUndefined = JInvalidDate"
| "new_Date parse JNull = JDate 0"
| "new_Date parse (JBool b) = JDate (if b then 1 else 0)"
| "new_Date parse (JDate t) = JDate t"
| "new_Date parse JInvalidDate = JInvalidDate"
| "new_Date parse v = (case parse v of None \<Rightarrow> JInvalidDate | Some t \<Rightarrow> JDate t)"

section \<open>Schemas\<close>

text \<open>A property descriptor of a schema definition, with the fields the code reads.
  A flag is its truthiness; an absent \<^verbatim>\<open>default\<close> is \<open>JUndefined\<close>.\<close>

record property =
  p_type :: "string option"
  p_format :: "string option"
  p_default :: jsval
  p_hashKey :: bool
  p_rangeKey :: bool
  p_version :: bool
  p_owner :: bool
  p_ref :: "string option"
  p_join :: "(string \<times> string) list option"
  p_required :: jsval

record index_def =
  i_hashKey :: string
  i_rangeKey :: "string option"
  i_unique :: bool

text \<open>A definition of the shared schema document; after compilation (line 124) it is
  the schema the model works with.\<close>

record schema =
  d_id :: "string option"
  d_properties :: "(string \<times> property) list"
  d_required :: jsval
  d_tableName :: jsval
  d_timestamps :: bool
  d_indexes :: "(string \<times> index_def) list"

text \<open>\<^verbatim>\<open>prop.$ref\<close> as a condition: the empty string is falsy.\<close>

definition has_ref :: "property \<Rightarrow> bool" where
  "has_ref p = (case p_ref p of None \<Rightarrow> False | Some r \<Rightarrow> r \<noteq> [])"

section \<open>The entity constructor (lines 285-312)\<close>

text \<open>The value a default initialises an attribute with (lines 301-309); \<open>now\<close> is the
  clock reading of \<^verbatim>\<open>new Date()\<close> at that property.\<close>

definition default_value :: "(jsval \<Rightarrow> int option) \<Rightarrow> int \<Rightarrow> property \<Rightarrow> jsval" where
  "default_value parse now p =
     (if p_type p = Some ''string'' \<and> p_format p = Some ''date-time''
      then (if p_default p = JStr ''now'' then JDate now else new_Date parse (p_default p))
      else p_default p)"

text \<open>One pass of the loop of line 291 for property \<open>k\<close>. Once the accessor for a
  property named \<^verbatim>\<open>_data\<close> is installed, reading \<^verbatim>\<open>this._data\<close> recurses without end.\<close>

definition ctor_step :: "(jsval \<Rightarrow> int option) \<Rightarrow> (string \<Rightarrow> int) \<Rightarrow> (string \<times> property) list \<Rightarrow> string \<Rightarrow> jsobj \<Rightarrow> error + jsobj" where
  "ctor_step parse clock props k d =
     (if k = ''_data'' then Inl RangeError
      else case map_of props k of
        None \<Rightarrow> Inr d
      | Some p \<Rightarrow>
          if \<not> truthy (obj_get d k) \<and> p_default p \<noteq> JUndefined
          then Inr (obj_set d k (default_value parse (clock k) p))
          else Inr d)"

text \<open>An entity: \<^verbatim>\<open>_isNew\<close>, \<^verbatim>\<open>_data\<close> and the snapshot \<^verbatim>\<open>#orig\<close> taken before the
  defaults are applied (line 289).\<close>

record entity =
  e_isNew :: bool
  e_data :: jsobj
  e_orig :: jsobj

definition NewModel :: "(jsval \<Rightarrow> int option) \<Rightarrow> (string \<Rightarrow> int) \<Rightarrow> schema \<Rightarrow> jsobj \<Rightarrow> bool \<Rightarrow> error + entity" where
  "NewModel parse clock sch data isNew =
     (case for_in (ctor_step parse clock (d_properties sch)) (obj_keys (d_properties sch)) data of
        Inl e \<Rightarrow> Inl e
      | Inr d \<Rightarrow> Inr \<lparr>e_isNew = isNew, e_data = d, e_orig = data\<rparr>)"

section \<open>Record transforms (lines 196-246)\<close>

definition is_date_format :: "property \<Rightarrow> bool" where
  "is_date_format p = (p_format p = Some ''date-time'' \<or> p_format p = Some ''date'')"

text \<open>Lines 207-211: a Date is stored as its \<^verbatim>\<open>valueOf()\<close>, anything else as it is.\<close>

fun stored_value :: "jsval \<Rightarrow> jsval" where
  "stored_value (JDate t) = JNum t"
| "stored_value JInvalidDate = JNaN"
| "stored_value v = v"

text \<open>Lines 202-205, one pass: \<^verbatim>\<open>item[key] = model[k][prop.join[key]]\<close>, where \<open>mk\<close>
  is \<^verbatim>\<open>model[k]\<close>.\<close>

definition join_step :: "jsval \<Rightarrow> (string \<times> string) list \<Rightarrow> string \<Rightarrow> jsobj \<Rightarrow> error + jsobj" where
  "join_step mk join key item =
     (case map_of join key of
        None \<Rightarrow> Inr item
      | Some v \<Rightarrow> (case js_get mk v of Inl e \<Rightarrow> Inl e | Inr x \<Rightarrow> Inr (obj_set item key x)))"

definition toDynamo_step :: "(string \<times> property) list \<Rightarrow> jsobj \<Rightarrow> string \<Rightarrow> jsobj \<Rightarrow> error + jsobj" where
  "toDynamo_step props model k item =
     (if obj_read model k = JUndefined then Inr item
      else case map_of props k of
        None \<Rightarrow> Inr item
      | Some p \<Rightarrow>
          if has_ref p
          then (case p_join p of
                  None \<Rightarrow> Inr item
                | Some j \<Rightarrow> for_in (join_step (obj_read model k) j) (obj_keys j) item)
          else Inr (obj_set item k (stored_value (obj_read model k))))"

definition toDynamo :: "schema \<Rightarrow> jsobj \<Rightarrow> error + jsobj" where
  "toDynamo sch model = for_in (toDynamo_step (d_properties sch) model) (obj_keys (d_properties sch)) []"

text \<open>\<^verbatim>\<open>Object.keys(prop.join)[0]\<close> and \<^verbatim>\<open>prop.join[key]\<close> (lines 230, 232); with an empty
  join both are \<^verbatim>\<open>undefined\<close>, which as a property name reads \<^verbatim>\<open>"undefined"\<close>.\<close>

definition first_join :: "(string \<times> string) list \<Rightarrow> string \<times> string" where
  "first_join j =
     (case obj_keys j of
        [] \<Rightarrow> (''undefined'', ''undefined'')
      | key # _ \<Rightarrow> (key, case map_of j key of None \<Rightarrow> ''undefined'' | Some fk \<Rightarrow> fk))"

definition parseDynamo_step :: "(jsval \<Rightarrow> int option) \<Rightarrow> (string \<times> property) list \<Rightarrow> jsobj \<Rightarrow> string \<Rightarrow> jsobj \<Rightarrow> error + jsobj" where
  "parseDynamo_step parse props item k model =
     (case map_of props k of
        None \<Rightarrow> Inr model
      | Some p \<Rightarrow>
          if has_ref p
          then (if truthy (obj_read item k) then Inr (obj_set model k (obj_read item k))
                else case p_join p of
                  None \<Rightarrow> Inl TypeError
                | Some j \<Rightarrow>
                    (case first_join j of (key, fk) \<Rightarrow>
                       if \<not> truthy (obj_read item key) then Inr model
                       else Inr (obj_set model k (JObj [(fk, obj_read item key)]))))
          else if obj_read item k = JUndefined then Inr model
          else if is_date_format p then Inr (obj_set model k (new_Date parse (obj_read item k)))
          else Inr (obj_set model k (obj_read item k)))"

definition parseDynamo :: "(jsval \<Rightarrow> int option) \<Rightarrow> schema \<Rightarrow> jsobj \<Rightarrow> error + jsobj" where
  "parseDynamo parse sch item =
     for_in (parseDynamo_step parse (d_properties sch) item) (obj_keys (d_properties sch)) []"

text \<open>The records of the round-trip law. Every relation of the schema joins on one
  attribute pair, and no property, join attribute or joined key of the schema is named
  like a member of \<^verbatim>\<open>Object.prototype\<close>. An attribute of the record holds a value that is
  neither \<^verbatim>\<open>undefined\<close> nor a Date object, and it is either named by a property of the
  schema that is not a relation, holding an integer of epoch milliseconds in the range
  of time values when the format of the property is a date, or it is named by no
  property of the schema and is the join attribute of a relation, holding a truthy
  value.\<close>

fun single_pair :: "(string \<times> string) list option \<Rightarrow> (string \<times> string) option" where
  "single_pair (Some [kv]) = Some kv"
| "single_pair _ = None"

definition single_joins :: "(string \<times> property) list \<Rightarrow> bool" where
  "single_joins props =
     list_all (\<lambda>k. case map_of props k of
           None \<Rightarrow> True
         | Some p \<Rightarrow> has_ref p \<longrightarrow> single_pair (p_join p) \<noteq> None)
       (obj_keys props)"

fun is_epoch :: "jsval \<Rightarrow> bool" where
  "is_epoch (JNum n) = (\<bar>n\<bar> \<le> 8640000000000000)"
| "is_epoch _ = False"

fun is_Date :: "jsval \<Rightarrow> bool" where
  "is_Date (JDate t) = True"
| "is_Date JInvalidDate = True"
| "is_Date _ = False"

definition joins_on :: "(string \<times> property) list \<Rightarrow> string \<Rightarrow> bool" where
  "joins_on props k =
     list_ex (\<lambda>rk. case map_of props rk of
           None \<Rightarrow> False
         | Some p \<Rightarrow> has_ref p \<and> (case single_pair (p_join p) of Some (key, fk) \<Rightarrow> key = k | None \<Rightarrow> False))
       (obj_keys props)"

definition supported_attr :: "(string \<times> property) list \<Rightarrow> jsobj \<Rightarrow> string \<Rightarrow> bool" where
  "supported_attr props r k =
     (obj_get r k \<noteq> JUndefined \<and> \<not> is_Date (obj_get r k) \<and>
      (case map_of props k of
         Some p \<Rightarrow> \<not> has_ref p \<and> (is_date_format p \<longrightarrow> is_epoch (obj_get r k))
       | None \<Rightarrow> joins_on props k \<and> truthy (obj_get r k)))"

definition plain_name :: "string \<Rightarrow> bool" where
  "plain_name k = (k \<notin> set Object_prototype)"

definition plain_names :: "(string \<times> property) list \<Rightarrow> bool" where
  "plain_names props =
     list_all (\<lambda>k. plain_name k \<and>
         (case map_of props k of
            None \<Rightarrow> True
          | Some p \<Rightarrow>
              has_ref p \<longrightarrow>
                (case p_join p of
                   None \<Rightarrow> True
                 | Some j \<Rightarrow> list_all (\<lambda>kv. plain_name (fst kv) \<and> plain_name (snd kv)) j)))
       (obj_keys props)"

definition supported_record :: "(string \<times> property) list \<Rightarrow> jsobj \<Rightarrow> bool" where
  "supported_record props r =
     (single_joins props \<and> plain_names props \<and> list_all (supported_attr props r) (obj_keys r))"

text \<open>\<^verbatim>\<open>toDynamo(parseDynamo(r))\<close>.\<close>

definition roundtrip :: "(jsval \<Rightarrow> int option) \<Rightarrow> schema \<Rightarrow> jsobj \<Rightarrow> error + jsobj" where
  "roundtrip parse sch r = (case parseDynamo parse sch r of Inl e \<Rightarrow> Inl e | Inr m \<Rightarrow> toDynamo sch m)"

text \<open>What \<open>parseDynamo\<close> leaves under \<open>k\<close> of a model \<open>model\<close>.\<close>

definition pd_value :: "(jsval \<Rightarrow> int option) \<Rightarrow> (string \<times> property) list \<Rightarrow> jsobj \<Rightarrow> jsobj \<Rightarrow> string \<Rightarrow> jsval" where
  "pd_value parse props item model k =
     (case map_of props k of
        None \<Rightarrow> obj_get model k
      | Some p \<Rightarrow>
          if has_ref p
          then (if truthy (obj_read item k) then obj_read item k
                else case p_join p of
                  None \<Rightarrow> obj_get model k
                | Some j \<Rightarrow>
                    (case first_join j of (key, fk) \<Rightarrow>
                       if \<not> truthy (obj_read item key) then obj_get model k
                       else JObj [(fk, obj_read item key)]))
          else if obj_read item k = JUndefined then obj_get model k
          else if is_date_format p then new_Date parse (obj_read item k)
          else obj_read item k)"

text \<open>The attribute that \<open>toDynamo\<close> writes for property \<open>k\<close> of the parsed record \<open>r\<close>, and the write.\<close>

definition written :: "(string \<times> property) list \<Rightarrow> jsobj \<Rightarrow> string \<Rightarrow> string option" where
  "written props r k =
     (case map_of props k of
        None \<Rightarrow> None
      | Some p \<Rightarrow>
          if has_ref p
          then (case single_pair (p_join p) of
                  Some (key, fk) \<Rightarrow> if truthy (obj_get r key) then Some key else None
                | None \<Rightarrow> None)
          else if obj_get r k = JUndefined then None else Some k)"

definition write_back :: "(string \<times> property) list \<Rightarrow> jsobj \<Rightarrow> string \<Rightarrow> jsobj \<Rightarrow> jsobj" where
  "write_back props r k item =
     (case written props r k of None \<Rightarrow> item | Some x \<Rightarrow> obj_set item x (obj_get r x))"


section \<open>Reviving dates from JSON (lines 5-17, 252-254)\<close>

text \<open>The regular expression \<^verbatim>\<open>reISO\<close> of line 5, as a matcher: four digits, \<^verbatim>\<open>-\<close>, two
  digits, \<^verbatim>\<open>-\<close>, two digits, \<^verbatim>\<open>T\<close>, two digits, \<^verbatim>\<open>:\<close>, two digits, \<^verbatim>\<open>:\<close>, two digits, a
  dot, any number of digits, and then nothing, \<^verbatim>\<open>Z\<close>, or a sign followed by any
  number of digits, bars and colons. The dot is not optional in the pattern.\<close>

definition is_digit :: "char \<Rightarrow> bool" where
  "is_digit c = (c \<in> set ''0123456789'')"

fun digits :: "nat \<Rightarrow> string \<Rightarrow> string option" where
  "digits 0 s = Some s"
| "digits (Suc n) [] = None"
| "digits (Suc n) (c # cs) = (if is_digit c then digits n cs else None)"

fun lit :: "char \<Rightarrow> string \<Rightarrow> string option" where
  "lit c [] = None"
| "lit c (d # ds) = (if d = c then Some ds else None)"

definition tz_ok :: "string \<Rightarrow> bool" where
  "tz_ok t =
     (case t of
        [] \<Rightarrow> True
      | c # cs \<Rightarrow>
          (c = CHR ''Z'' \<and> cs = []) \<or>
          ((c = CHR ''+'' \<or> c = CHR ''-'') \<and>
           list_all (\<lambda>d. is_digit d \<or> d = CHR ''|'' \<or> d = CHR '':'') cs))"

definition reISO_test :: "string \<Rightarrow> bool" where
  "reISO_test s =
     (case Option.bind (Option.bind (Option.bind (Option.bind (Option.bind (Option.bind
            (Option.bind (Option.bind (Option.bind (Option.bind (Option.bind
            (digits 4 s) (lit CHR ''-'')) (digits 2)) (lit CHR ''-'')) (digits 2))
            (lit CHR ''T'')) (digits 2)) (lit CHR '':'')) (digits 2)) (lit CHR '':''))
            (digits 2)) (lit CHR ''.'') of
        None \<Rightarrow> False
      | Some rest \<Rightarrow> tz_ok (dropWhile is_digit rest))"

definition reviver :: "(jsval \<Rightarrow> int option) \<Rightarrow> string \<Rightarrow> jsval \<Rightarrow> jsval" where
  "reviver parse key val =
     (case val of
        JStr s \<Rightarrow> if reISO_test s then new_Date parse (JStr s) else val
      | _ \<Rightarrow> val)"

text \<open>The runtime's quoting of a string in JSON (\<^verbatim>\<open>QuoteJSONString\<close>), on bytes.\<close>

definition hex_digit :: "nat \<Rightarrow> char" where
  "hex_digit n = ''0123456789abcdef'' ! (n mod 16)"

definition json_escape :: "char \<Rightarrow> string" where
  "json_escape c =
     (if c = CHR 0x22 then [CHR 0x5C, CHR 0x22]
      else if c = CHR 0x5C then [CHR 0x5C, CHR 0x5C]
      else if c = CHR 0x08 then [CHR 0x5C, CHR ''b'']
      else if c = CHR 0x09 then [CHR 0x5C, CHR ''t'']
      else if c = CHR 0x0A then [CHR 0x5C, CHR ''n'']
      else if c = CHR 0x0C then [CHR 0x5C, CHR ''f'']
      else if c = CHR 0x0D then [CHR 0x5C, CHR ''r'']
      else if (of_char c :: nat) < 32
        then [CHR 0x5C, CHR ''u'', CHR ''0'', CHR ''0'', hex_digit (of_char c div 16), hex_digit (of_char c)]
      else [c])"

definition JSON_quote :: "string \<Rightarrow> string" where
  "JSON_quote s = CHR 0x22 # concat (map json_escape s) @ [CHR 0x22]"

text \<open>\<^verbatim>\<open>parseJSON(json)\<close> of line 252 on a text: it returns
  \<^verbatim>\<open>JSON.stringify(json, reviver)\<close>. For a string, \<^verbatim>\<open>JSON.stringify\<close> calls the
  replacer once, with the empty key, and serialises what it returns: a string is
  quoted, and the Date that \<^verbatim>\<open>reviver\<close> makes, an object without enumerable properties
  whose \<^verbatim>\<open>toJSON\<close> is no longer consulted, becomes \<^verbatim>\<open>{}\<close>.\<close>

definition parseJSON :: "(jsval \<Rightarrow> int option) \<Rightarrow> string \<Rightarrow> jsval" where
  "parseJSON parse json =
     (case reviver parse [] (JStr json) of
        JStr s \<Rightarrow> JStr (JSON_quote s)
      | _ \<Rightarrow> JStr ''{}'')"

section \<open>The schema compiler (lines 87-131, 157-189)\<close>

text \<open>The shared schema document is its \<^verbatim>\<open>definitions\<close>, by name; a document without
  definitions is the empty list. Line 96: the first definition whose \<^verbatim>\<open>$id\<close> is the
  requested one.\<close>

definition find_definition :: "(string \<times> schema) list \<Rightarrow> string \<Rightarrow> string option" where
  "find_definition defs ident =
     find (\<lambda>n. case map_of defs n of None \<Rightarrow> False | Some d \<Rightarrow> d_id d = Some ident) (obj_keys defs)"

text \<open>Lines 113-118, one pass: a property of the referenced definition that points
  back is deleted.\<close>

definition prune_step :: "string \<Rightarrow> string \<Rightarrow> string \<Rightarrow> (string \<times> schema) list \<Rightarrow> (string \<times> schema) list" where
  "prune_step schemaName refName refPropName defs =
     (case map_of defs refName of
        None \<Rightarrow> defs
      | Some rs \<Rightarrow>
          (case map_of (d_properties rs) refPropName of
             None \<Rightarrow> defs
           | Some rp \<Rightarrow>
               if p_ref rp = Some schemaName
               then obj_set defs refName (rs\<lparr>d_properties := obj_delete (d_properties rs) refPropName\<rparr>)
               else defs))"

text \<open>Lines 104-119, one pass. The definitions are shared objects, so each pass reads
  them again; a property deleted by an earlier pass is not visited.\<close>

definition hoist_step :: "string \<Rightarrow> string \<Rightarrow> (string \<times> schema) list \<Rightarrow> error + (string \<times> schema) list" where
  "hoist_step schemaName propName defs =
     (case map_of defs schemaName of
        None \<Rightarrow> Inr defs
      | Some sch \<Rightarrow>
          (case map_of (d_properties sch) propName of
             None \<Rightarrow> Inr defs
           | Some prop \<Rightarrow>
               if \<not> has_ref prop \<or> \<not> truthy (p_required prop) then Inr defs
               else
                 (case p_ref prop of
                    None \<Rightarrow> Inr defs
                  | Some refName \<Rightarrow>
                      (case map_of defs refName of
                         None \<Rightarrow> Inl TypeError
                       | Some rs \<Rightarrow>
                           let defs1 = obj_set defs refName (rs\<lparr>d_required := p_required prop\<rparr>);
                               defs2 = (case map_of defs1 schemaName of
                                          None \<Rightarrow> defs1
                                        | Some sch1 \<Rightarrow>
                                            obj_set defs1 schemaName
                                              (sch1\<lparr>d_properties :=
                                                 obj_set (d_properties sch1) propName (prop\<lparr>p_required := JUndefined\<rparr>)\<rparr>));
                               refProps = (case map_of defs2 refName of
                                             None \<Rightarrow> []
                                           | Some rs2 \<Rightarrow> obj_keys (d_properties rs2))
                           in Inr (fold (prune_step schemaName refName) refProps defs2)))))"

text \<open>The constructor \<^verbatim>\<open>new Schema(id)\<close>: the compiled schema and the document as the
  constructor leaves it. When no definition has the identifier, \<^verbatim>\<open>schema\<close> is still
  \<^verbatim>\<open>null\<close> at line 104, where its \<^verbatim>\<open>properties\<close> are read. Lines 121-124 hand the
  document to the validation engine, which is not part of this code: \<open>engine\<close> is what
  it makes of the document and the identifier, the schema of the validator it compiles
  or the error it throws (for a reference it cannot resolve, or when it knows no schema
  of that identifier and \<^verbatim>\<open>validate.schema\<close> is read of \<^verbatim>\<open>undefined\<close>). The validator itself
  is a parameter of \<open>save\<close> below.\<close>

definition Schema :: "((string \<times> schema) list \<Rightarrow> string \<Rightarrow> error + schema) \<Rightarrow> (string \<times> schema) list \<Rightarrow> string
    \<Rightarrow> error + schema \<times> (string \<times> schema) list" where
  "Schema engine defs ident =
     (case find_definition defs ident of
        None \<Rightarrow> Inl TypeError
      | Some schemaName \<Rightarrow>
          (case map_of defs schemaName of
             None \<Rightarrow> Inl TypeError
           | Some sch \<Rightarrow>
               (case for_in (hoist_step schemaName) (obj_keys (d_properties sch)) defs of
                  Inl e \<Rightarrow> Inl e
                | Inr defs' \<Rightarrow>
                    (case engine defs' ident of
                       Inl e \<Rightarrow> Inl e
                     | Inr compiled \<Rightarrow> Inr (compiled, defs')))))"

text \<open>Lines 126-130: the key object \<^verbatim>\<open>#key\<close>, with the fields \<^verbatim>\<open>hashKey\<close> and \<^verbatim>\<open>rangeKey\<close>;
  a later flagged property replaces an earlier one. Lines 157-164: the version
  attribute is the first property flagged as version.\<close>

definition key_step :: "(string \<times> property) list \<Rightarrow> string \<Rightarrow> (string \<times> string) list \<Rightarrow> (string \<times> string) list" where
  "key_step props k key =
     (case map_of props k of
        None \<Rightarrow> key
      | Some p \<Rightarrow>
          let key1 = (if p_hashKey p then obj_set key ''hashKey'' k else key)
          in if p_rangeKey p then obj_set key1 ''rangeKey'' k else key1)"

definition schema_key :: "schema \<Rightarrow> (string \<times> string) list" where
  "schema_key sch = fold (key_step (d_properties sch)) (obj_keys (d_properties sch)) []"

definition key_hashKey :: "schema \<Rightarrow> string option" where
  "key_hashKey sch = map_of (schema_key sch) ''hashKey''"

definition key_rangeKey :: "schema \<Rightarrow> string option" where
  "key_rangeKey sch = map_of (schema_key sch) ''rangeKey''"

definition version :: "schema \<Rightarrow> string option" where
  "version sch =
     find (\<lambda>k. case map_of (d_properties sch) k of None \<Rightarrow> False | Some p \<Rightarrow> p_version p)
       (obj_keys (d_properties sch))"

text \<open>\<^verbatim>\<open>if (schema.version)\<close>: the version attribute, when there is one with a non-empty name.\<close>

definition version_attr :: "schema \<Rightarrow> string option" where
  "version_attr sch = (case version sch of None \<Rightarrow> None | Some k \<Rightarrow> if k = [] then None else Some k)"

section \<open>The static update (lines 546-584)\<close>

record update_params =
  u_TableName :: jsval
  u_Key :: jsobj
  u_ExpressionAttributeNames :: "(string \<times> string) list"
  u_ExpressionAttributeValues :: jsobj
  u_ReturnValues :: string
  u_UpdateExpression :: string
  u_ConditionExpression :: "string option"

text \<open>The update argument maps a verb to its body, an object of attributes. Line 554
  finds the first of the three verbs that is present; line 568 and the following read
  \<^verbatim>\<open>update[type]\<close>, which for no verb found is the property named \<^verbatim>\<open>undefined\<close>.\<close>

definition verb_type :: "(string \<times> jsobj) list \<Rightarrow> string option" where
  "verb_type upd = find (\<lambda>t. map_of upd t \<noteq> None) [''$SET'', ''$ADD'', ''$DELETE'']"

definition verb_key :: "(string \<times> jsobj) list \<Rightarrow> string" where
  "verb_key upd = (case verb_type upd of None \<Rightarrow> ''undefined'' | Some t \<Rightarrow> t)"

definition verb_expression :: "(string \<times> jsobj) list \<Rightarrow> string" where
  "verb_expression upd =
     (if verb_type upd = Some ''$ADD'' then ''ADD ''
      else if verb_type upd = Some ''$DELETE'' then ''DELETE ''
      else ''SET '')"

text \<open>Lines 562-574: the body of the verb after the version attribute and the
  attributes of the key have been deleted from it.\<close>

definition stripped_body :: "schema \<Rightarrow> jsobj \<Rightarrow> jsobj \<Rightarrow> jsobj" where
  "stripped_body sch key body =
     fold (\<lambda>k b. obj_delete b k) (obj_keys key)
       (case version_attr sch of None \<Rightarrow> body | Some k \<Rightarrow> obj_delete body k)"

text \<open>Lines 575-580, one pass.\<close>

definition assign_step :: "jsobj \<Rightarrow> string \<Rightarrow> update_params \<Rightarrow> update_params" where
  "assign_step body k params =
     params\<lparr>u_UpdateExpression :=
              u_UpdateExpression params
                @ (if obj_keys (u_ExpressionAttributeNames params) \<noteq> [] then '', '' else [])
                @ ''#'' @ k @ '' = :'' @ k,
            u_ExpressionAttributeNames := obj_set (u_ExpressionAttributeNames params) (''#'' @ k) k,
            u_ExpressionAttributeValues := obj_set (u_ExpressionAttributeValues params) ('':'' @ k) (obj_get body k)\<rparr>"

text \<open>Lines 562-571: the version attribute is set to \<^verbatim>\<open>Date.now()\<close>, and a truthy value
  supplied for it becomes the condition.\<close>

definition version_step :: "int \<Rightarrow> jsobj \<Rightarrow> string \<Rightarrow> update_params \<Rightarrow> update_params" where
  "version_step now body k params =
     (let p1 = params\<lparr>u_UpdateExpression := u_UpdateExpression params @ ''#'' @ k @ '' = :'' @ k,
                       u_ExpressionAttributeNames := obj_set (u_ExpressionAttributeNames params) (''#'' @ k) k,
                       u_ExpressionAttributeValues := obj_set (u_ExpressionAttributeValues params) ('':'' @ k) (JNum now)\<rparr>
      in if truthy (obj_get body k)
         then p1\<lparr>u_ConditionExpression := Some (''#'' @ k @ '' = :'' @ k @ ''Old''),
                 u_ExpressionAttributeValues :=
                   obj_set (u_ExpressionAttributeValues p1) ('':'' @ k @ ''Old'') (obj_get body k)\<rparr>
         else p1)"

text \<open>The request that \<^verbatim>\<open>update(key, update)\<close> builds, and the caller's \<^verbatim>\<open>update\<close> object as
  the call leaves it. \<open>now\<close> is the reading of \<^verbatim>\<open>Date.now()\<close>. Without a body to work on,
  reading a property of \<^verbatim>\<open>undefined\<close> throws before anything is changed.\<close>

definition update_build :: "schema \<Rightarrow> int \<Rightarrow> jsobj \<Rightarrow> (string \<times> jsobj) list \<Rightarrow> error + update_params \<times> (string \<times> jsobj) list" where
  "update_build sch now key upd =
     (case map_of upd (verb_key upd) of
        None \<Rightarrow> Inl TypeError
      | Some body \<Rightarrow>
          let p0 = \<lparr>u_TableName = d_tableName sch, u_Key = key,
                     u_ExpressionAttributeNames = [], u_ExpressionAttributeValues = [],
                     u_ReturnValues = ''ALL_NEW'', u_UpdateExpression = verb_expression upd,
                     u_ConditionExpression = None\<rparr>;
              p1 = (case version_attr sch of None \<Rightarrow> p0 | Some k \<Rightarrow> version_step now body k p0);
              body' = stripped_body sch key body
          in Inr (fold (assign_step body') (obj_keys body') p1, obj_set upd (verb_key upd) body'))"

text \<open>The whole call: the store client's \<^verbatim>\<open>update\<close> answers the request with its data or
  fails. The second component is the caller's \<^verbatim>\<open>update\<close> object after the call.\<close>

definition update :: "schema \<Rightarrow> (update_params \<Rightarrow> string + jsobj) \<Rightarrow> int \<Rightarrow> jsobj \<Rightarrow> (string \<times> jsobj) list
    \<Rightarrow> (error + jsval) \<times> (string \<times> jsobj) list" where
  "update sch client_update now key upd =
     (case update_build sch now key upd of
        Inl e \<Rightarrow> (Inl e, upd)
      | Inr (params, upd') \<Rightarrow>
          (case client_update params of
             Inl msg \<Rightarrow> (Inl (StoreError msg), upd')
           | Inr data \<Rightarrow> (Inr (obj_get data ''Attributes''), upd')))"

section \<open>The store's reading of a SET expression\<close>

text \<open>The store is an external collaborator. To read the effect of a request on a stored
  item, this is its documented behaviour for the expressions built above: after \<^verbatim>\<open>SET\<close>,
  clauses \<^verbatim>\<open>#name = :value\<close> separated by commas, each assigning the value bound to the
  value placeholder to the attribute bound to the name placeholder.\<close>

fun split_on :: "string \<Rightarrow> nat \<Rightarrow> string \<Rightarrow> string \<Rightarrow> string list" where
  "split_on sep n cur [] = [rev cur]"
| "split_on sep n cur (c # cs) =
     (if 0 < n then split_on sep (n - 1) cur cs
      else if sep \<noteq> [] \<and> take (length sep) (c # cs) = sep
        then rev cur # split_on sep (length sep - 1) [] cs
      else split_on sep 0 (c # cur) cs)"

definition store_set_clause :: "update_params \<Rightarrow> string \<Rightarrow> jsobj \<Rightarrow> error + jsobj" where
  "store_set_clause params clause item =
     (case split_on '' = '' 0 [] clause of
        [lhs, rhs] \<Rightarrow>
          (case (map_of (u_ExpressionAttributeNames params) lhs,
                 map_of (u_ExpressionAttributeValues params) rhs) of
             (Some attr, Some v) \<Rightarrow> Inr (obj_set item attr v)
           | _ \<Rightarrow> Inl (StoreError ''ValidationException''))
      | _ \<Rightarrow> Inl (StoreError ''ValidationException''))"

definition store_set :: "update_params \<Rightarrow> jsobj \<Rightarrow> error + jsobj" where
  "store_set params item =
     (if take 4 (u_UpdateExpression params) = ''SET ''
      then for_in (store_set_clause params) (split_on '', '' 0 [] (drop 4 (u_UpdateExpression params))) item
      else Inl (StoreError ''ValidationException''))"

section \<open>Pagination (lines 744-772)\<close>

text \<open>The parameters of a query or scan that \<^verbatim>\<open>Model.find\<close> reads or writes; \<open>f_other\<close>
  holds the rest. \<^verbatim>\<open>Limit\<close> is absent or an integer, and a continuation token is absent or
  an object.\<close>

record find_params =
  f_TableName :: jsval
  f_KeyConditionExpression :: "string option"
  f_Limit :: "int option"
  f_ExclusiveStartKey :: "jsval option"
  f_other :: jsobj

record page =
  p_Items :: "jsval list"
  p_ScannedCount :: int
  p_LastEvaluatedKey :: "jsval option"

text \<open>The store client as \<^verbatim>\<open>find\<close> uses it: a query or a scan answers with a page or
  fails with a message. It is a function of a store state \<open>'s\<close> as well, since the store
  may change between two pages.\<close>

record 's find_client =
  c_query :: "'s \<Rightarrow> find_params \<Rightarrow> (string + page) \<times> 's"
  c_scan :: "'s \<Rightarrow> find_params \<Rightarrow> (string + page) \<times> 's"

text \<open>The callbacks of \<^verbatim>\<open>opts\<close> are functions of the item (and of the accumulated value).\<close>

record find_opts =
  o_filter :: "(jsval \<Rightarrow> bool) option"
  o_map :: "(jsval \<Rightarrow> jsval) option"
  o_reduce :: "(jsval \<Rightarrow> jsval \<Rightarrow> jsval) option"
  o_initialValue :: jsval

record find_acc =
  a_Items :: "jsval list"
  a_ScannedCount :: int
  a_Count :: "int option"
  a_Accumulator :: jsval
  a_LastEvaluatedKey :: "jsval option"

text \<open>Line 749.\<close>

definition fetch :: "'s find_client \<Rightarrow> 's \<Rightarrow> find_params \<Rightarrow> (string + page) \<times> 's" where
  "fetch client s params =
     (case f_KeyConditionExpression params of
        None \<Rightarrow> c_scan client s params
      | Some e \<Rightarrow> if e = [] then c_scan client s params else c_query client s params)"

text \<open>Lines 752-753: \<^verbatim>\<open>data.Items\<close> after the filter and the map.\<close>

definition page_items :: "find_opts \<Rightarrow> page \<Rightarrow> jsval list" where
  "page_items opts data =
     (let xs = (case o_filter opts of None \<Rightarrow> p_Items data | Some f \<Rightarrow> filter f (p_Items data))
      in case o_map opts of None \<Rightarrow> xs | Some g \<Rightarrow> map g xs)"

text \<open>Line 747.\<close>

definition seed :: "find_opts \<Rightarrow> find_acc \<Rightarrow> find_acc" where
  "seed opts acc =
     (if o_reduce opts \<noteq> None \<and> \<not> truthy (a_Accumulator acc)
      then acc\<lparr>a_Accumulator := o_initialValue opts\<rparr> else acc)"

text \<open>Lines 751-759.\<close>

definition accumulate :: "find_opts \<Rightarrow> find_acc \<Rightarrow> page \<Rightarrow> find_acc" where
  "accumulate opts acc data =
     (let acc1 = acc\<lparr>a_ScannedCount := a_ScannedCount acc + p_ScannedCount data\<rparr>
      in case o_reduce opts of
           Some r \<Rightarrow> acc1\<lparr>a_Accumulator := foldl r (a_Accumulator acc1) (page_items opts data)\<rparr>
         | None \<Rightarrow> acc1\<lparr>a_Items := a_Items acc1 @ page_items opts data,
                          a_Count := Some (int (length (a_Items acc1 @ page_items opts data)))\<rparr>)"

text \<open>Line 761: a truthy \<^verbatim>\<open>Limit\<close> is decremented by \<open>n\<close>.\<close>

definition decrement :: "find_params \<Rightarrow> nat \<Rightarrow> find_params" where
  "decrement params n =
     (case f_Limit params of
        None \<Rightarrow> params
      | Some l \<Rightarrow> if l \<noteq> 0 then params\<lparr>f_Limit := Some (l - int n)\<rparr> else params)"

text \<open>Line 763.\<close>

definition goes_on :: "find_params \<Rightarrow> bool" where
  "goes_on params = (case f_Limit params of None \<Rightarrow> True | Some l \<Rightarrow> 0 < l)"

text \<open>\<^verbatim>\<open>Model.find(client, params, opts, acc)\<close>. The result is the accumulator together with
  the caller's \<^verbatim>\<open>params\<close> object as the call leaves it, and the state of the store. The
  recursion of line 765 need not end: \<open>None\<close> is the call that never returns.\<close>

partial_function (option) Model_find ::
    "'s find_client \<Rightarrow> 's \<Rightarrow> find_params \<Rightarrow> find_opts \<Rightarrow> find_acc
       \<Rightarrow> ((error + find_acc \<times> find_params) \<times> 's) option" where
  "Model_find client s params opts acc =
     (if o_map opts \<noteq> None \<and> o_reduce opts \<noteq> None
        then Some (Inl (Error ''Only map or reduce is required''), s)
      else if o_reduce opts \<noteq> None \<and> \<not> truthy (o_initialValue opts)
        then Some (Inl (Error ''Reduce initialValue is required''), s)
      else
        (case fetch client s params of
           (Inl msg, s1) \<Rightarrow> Some (Inl (StoreError msg), s1)
         | (Inr data, s1) \<Rightarrow>
             (case p_LastEvaluatedKey data of
                None \<Rightarrow>
                  Some (Inr (accumulate opts (seed opts acc) data,
                             decrement params (length (page_items opts data))), s1)
              | Some tok \<Rightarrow>
                  if goes_on (decrement params (length (page_items opts data)))
                  then Model_find client s1
                         ((decrement params (length (page_items opts data)))\<lparr>f_ExclusiveStartKey := Some tok\<rparr>)
                         opts (accumulate opts (seed opts acc) data)
                  else Some (Inr ((accumulate opts (seed opts acc) data)\<lparr>a_LastEvaluatedKey := Some tok\<rparr>,
                                  decrement params (length (page_items opts data))), s1))))"

text \<open>The pagination as the specification words it, with the number by which a page
  decrements \<^verbatim>\<open>Limit\<close> as the parameter \<open>count\<close>: the run ends at a page without a
  continuation token; it ends at a page with a token when a \<^verbatim>\<open>Limit\<close> was given and is no
  longer positive, and then the token is kept on the accumulator; otherwise it goes on
  from the token.\<close>

definition opts_ok :: "find_opts \<Rightarrow> bool" where
  "opts_ok opts =
     (\<not> (o_map opts \<noteq> None \<and> o_reduce opts \<noteq> None) \<and>
      \<not> (o_reduce opts \<noteq> None \<and> \<not> truthy (o_initialValue opts)))"

inductive paginates ::
    "(find_opts \<Rightarrow> page \<Rightarrow> nat) \<Rightarrow> 's find_client \<Rightarrow> find_opts \<Rightarrow> 's \<Rightarrow> find_params \<Rightarrow> find_acc
       \<Rightarrow> (find_acc \<times> find_params) \<times> 's \<Rightarrow> bool"
  for count :: "find_opts \<Rightarrow> page \<Rightarrow> nat" and client :: "'s find_client" and opts :: find_opts where
  last_page:
    "fetch client s params = (Inr data, s1) \<Longrightarrow> p_LastEvaluatedKey data = None \<Longrightarrow>
     paginates count client opts s params acc
       ((accumulate opts (seed opts acc) data, decrement params (count opts data)), s1)"
| limit_reached:
    "fetch client s params = (Inr data, s1) \<Longrightarrow> p_LastEvaluatedKey data = Some tok \<Longrightarrow>
     f_Limit (decrement params (count opts data)) = Some l \<Longrightarrow> l \<le> 0 \<Longrightarrow>
     paginates count client opts s params acc
       (((accumulate opts (seed opts acc) data)\<lparr>a_LastEvaluatedKey := Some tok\<rparr>,
         decrement params (count opts data)), s1)"
| next_page:
    "fetch client s params = (Inr data, s1) \<Longrightarrow> p_LastEvaluatedKey data = Some tok \<Longrightarrow>
     f_Limit (decrement params (count opts data)) = None \<or>
       (\<exists>l. f_Limit (decrement params (count opts data)) = Some l \<and> 0 < l) \<Longrightarrow>
     paginates count client opts s1
       ((decrement params (count opts data))\<lparr>f_ExclusiveStartKey := Some tok\<rparr>)
       (accumulate opts (seed opts acc) data) r \<Longrightarrow>
     paginates count client opts s params acc r"

text \<open>The two readings of the count: the items fetched from the store on the page, and
  the items of the page that are left after \<^verbatim>\<open>opts.filter\<close>.\<close>

definition fetched_count :: "find_opts \<Rightarrow> page \<Rightarrow> nat" where
  "fetched_count opts data = length (p_Items data)"

definition kept_count :: "find_opts \<Rightarrow> page \<Rightarrow> nat" where
  "kept_count opts data =
     length (case o_filter opts of None \<Rightarrow> p_Items data | Some f \<Rightarrow> filter f (p_Items data))"

section \<open>Batched reads (lines 702-734)\<close>



















section \<open>Fetching an entity (lines 591-599)\<close>

text \<open>What the code asks of the runtime: the Date made of a string or an object, the
  clock reading taken on behalf of an attribute, the number a value that is not
  a number converts to, and the number that the double arithmetic gives for a sum
  that is not an integer a double holds exactly.\<close>

record runtime =
  r_parse :: "jsval \<Rightarrow> int option"
  r_clock :: "string \<Rightarrow> int"
  r_toNumber :: "jsval \<Rightarrow> jsval"
  r_round :: "int \<Rightarrow> int"

record query_params =
  q_TableName :: jsval
  q_IndexName :: string
  q_ExpressionAttributeNames :: jsobj
  q_ExpressionAttributeValues :: jsobj
  q_KeyConditionExpression :: string
  q_FilterExpression :: "string option"

record put_params =
  pt_TableName :: jsval
  pt_Item :: jsobj
  pt_ConditionExpression :: "string option"
  pt_ExpressionAttributeNames :: "jsobj option"
  pt_ExpressionAttributeValues :: "jsobj option"

text \<open>The store client as an entity uses it: \<^verbatim>\<open>get\<close> answers with the item or without
  one, \<^verbatim>\<open>query\<close> with its \<^verbatim>\<open>Count\<close>, \<^verbatim>\<open>put\<close> with nothing; each may fail with a message.\<close>

record store_client =
  sc_get :: "jsval \<Rightarrow> jsobj \<Rightarrow> string + jsobj option"
  sc_query :: "query_params \<Rightarrow> string + int"
  sc_put :: "put_params \<Rightarrow> string option"

text \<open>A name in a template string or as a value: \<^verbatim>\<open>undefined\<close> when it is absent.\<close>

definition str_of :: "string option \<Rightarrow> string" where
  "str_of n = (case n of None \<Rightarrow> ''undefined'' | Some s \<Rightarrow> s)"

definition name_val :: "string option \<Rightarrow> jsval" where
  "name_val n = (case n of None \<Rightarrow> JUndefined | Some s \<Rightarrow> JStr s)"

text \<open>Line 592: the key argument reduced to the attributes of the schema's key.\<close>

definition key_step_get :: "jsval \<Rightarrow> string \<Rightarrow> jsobj \<Rightarrow> error + jsobj" where
  "key_step_get key c a = (case js_get key c of Inl e \<Rightarrow> Inl e | Inr v \<Rightarrow> Inr (obj_set a c v))"

text \<open>\<^verbatim>\<open>get(key)\<close> with the default \<^verbatim>\<open>fields = []\<close>, for which \<^verbatim>\<open>populate\<close> returns at once
  (line 492): \<^verbatim>\<open>null\<close>, or the entity made of the item, as a value.\<close>

definition get :: "runtime \<Rightarrow> store_client \<Rightarrow> schema \<Rightarrow> jsval \<Rightarrow> error + jsval" where
  "get rt client sch key =
     (case for_in (key_step_get key) (map snd (schema_key sch)) [] of
        Inl e \<Rightarrow> Inl e
      | Inr k \<Rightarrow>
          (case sc_get client (d_tableName sch) k of
             Inl msg \<Rightarrow> Inl (StoreError msg)
           | Inr None \<Rightarrow> Inr JNull
           | Inr (Some item) \<Rightarrow>
               (case parseDynamo (r_parse rt) sch item of
                  Inl e \<Rightarrow> Inl e
                | Inr m \<Rightarrow>
                    (case NewModel (r_parse rt) (r_clock rt) sch m False of
                       Inl e \<Rightarrow> Inl e
                     | Inr ent \<Rightarrow> Inr (JModel (obj_keys (d_properties sch)) (e_data ent))))))"

section \<open>Saving an entity (lines 324-474)\<close>

text \<open>\<^verbatim>\<open>this._isNew\<close>; a schema property of that name replaces it by an accessor to the data.\<close>

definition is_new :: "schema \<Rightarrow> entity \<Rightarrow> bool" where
  "is_new sch ent =
     (if ''_isNew'' \<in> set (obj_keys (d_properties sch)) then truthy (obj_get (e_data ent) ''_isNew'')
      else e_isNew ent)"

text \<open>Lines 326-340, one pass. \<open>models\<close> are the models registered with the registry,
  by name; for a name that is not registered the registry compiles a model without a
  schema, whose \<^verbatim>\<open>get\<close> throws.\<close>

definition relation_step :: "runtime \<Rightarrow> (string \<Rightarrow> schema option) \<Rightarrow> store_client \<Rightarrow> (string \<times> property) list
    \<Rightarrow> string \<Rightarrow> jsobj \<Rightarrow> error + jsobj" where
  "relation_step rt models client props propName data =
     (if \<not> truthy (obj_get data propName) then Inr data
      else case map_of props propName of
        None \<Rightarrow> Inr data
      | Some prop \<Rightarrow>
          if \<not> has_ref prop then Inr data
          else
            (case obj_get data propName of
               JModel ns d \<Rightarrow> Inr data
             | obj \<Rightarrow>
                 (case models (str_of (p_ref prop)) of
                    None \<Rightarrow> Inl TypeError
                  | Some refSchema \<Rightarrow>
                      (case get rt client refSchema obj of
                         Inl e \<Rightarrow> Inl e
                       | Inr found \<Rightarrow>
                           if \<not> truthy found
                           then Inl (DynormError (''Relation '' @ propName @ '' not exist''))
                           else Inr (obj_set data propName found)))))"

definition resolve_relations :: "runtime \<Rightarrow> (string \<Rightarrow> schema option) \<Rightarrow> store_client \<Rightarrow> schema
    \<Rightarrow> jsobj \<Rightarrow> error + jsobj" where
  "resolve_relations rt models client sch data =
     for_in (relation_step rt models client (d_properties sch)) (obj_keys (d_properties sch)) data"

text \<open>Lines 356-366 and 369-380: the attribute name and the value of one component of an
  index, through the join when the property is a relation.\<close>

definition index_value :: "(string \<times> property) list \<Rightarrow> jsobj \<Rightarrow> string \<Rightarrow> error + string option \<times> jsval" where
  "index_value props data attr =
     (case map_of props attr of
        None \<Rightarrow> Inl TypeError
      | Some prop \<Rightarrow>
          if has_ref prop
          then (case p_join prop of
                  None \<Rightarrow> Inl TypeError
                | Some j \<Rightarrow>
                    (case js_get (obj_get data attr) (snd (first_join j)) of
                       Inl e \<Rightarrow> Inl e
                     | Inr v \<Rightarrow> Inr (case obj_keys j of [] \<Rightarrow> None | key # _ \<Rightarrow> Some key, v)))
          else Inr (Some attr, obj_get data attr))"

text \<open>Lines 386-399: the query on the index \<open>k\<close> for a hash component and a range
  component, the latter absent when the index has none.\<close>

definition key_condition :: "schema \<Rightarrow> string \<Rightarrow> string option \<times> jsval \<Rightarrow> (string option \<times> jsval) option \<Rightarrow> query_params" where
  "key_condition sch k hcomp rcomp =
     (let hk = str_of (fst hcomp);
          p = \<lparr>q_TableName = d_tableName sch, q_IndexName = k,
                q_ExpressionAttributeNames = [(''#'' @ hk, name_val (fst hcomp))],
                q_ExpressionAttributeValues = [('':'' @ hk, snd hcomp)],
                q_KeyConditionExpression = ''#'' @ hk @ '' = :'' @ hk,
                q_FilterExpression = None\<rparr>
      in case rcomp of
           None \<Rightarrow> p
         | Some (rkey, rv) \<Rightarrow>
             (case rkey of
                None \<Rightarrow> p
              | Some rk \<Rightarrow>
                  if rk = [] then p
                  else p\<lparr>q_KeyConditionExpression :=
                            q_KeyConditionExpression p @ '' AND #'' @ rk @ '' = :'' @ rk,
                          q_ExpressionAttributeNames := obj_set (q_ExpressionAttributeNames p) (''#'' @ rk) (JStr rk),
                          q_ExpressionAttributeValues := obj_set (q_ExpressionAttributeValues p) ('':'' @ rk) rv\<rparr>))"

text \<open>Lines 401-411: an entity that is not new excludes its own primary key.\<close>

definition own_key_filter :: "schema \<Rightarrow> jsobj \<Rightarrow> query_params \<Rightarrow> query_params" where
  "own_key_filter sch data p =
     (let hk = str_of (key_hashKey sch);
          p1 = p\<lparr>q_FilterExpression := Some (''#'' @ hk @ ''Pk <> :'' @ hk @ ''Pk''),
                 q_ExpressionAttributeNames :=
                   obj_set (q_ExpressionAttributeNames p) (''#'' @ hk @ ''Pk'') (name_val (key_hashKey sch)),
                 q_ExpressionAttributeValues :=
                   obj_set (q_ExpressionAttributeValues p) ('':'' @ hk @ ''Pk'') (obj_get data hk)\<rparr>
      in case key_rangeKey sch of
           None \<Rightarrow> p1
         | Some rk \<Rightarrow>
             if rk = [] then p1
             else p1\<lparr>q_FilterExpression :=
                        Some (str_of (q_FilterExpression p1) @ '' AND #'' @ rk @ ''Pk <> :'' @ rk @ ''Pk''),
                      q_ExpressionAttributeNames :=
                        obj_set (q_ExpressionAttributeNames p1) (''#'' @ rk @ ''Pk'') (JStr rk),
                      q_ExpressionAttributeValues :=
                        obj_set (q_ExpressionAttributeValues p1) ('':'' @ rk @ ''Pk'') (obj_get data rk)\<rparr>)"

text \<open>Lines 356-411: the query for the unique index \<open>k\<close>, or the error for an empty
  component.\<close>

definition unique_query :: "schema \<Rightarrow> bool \<Rightarrow> jsobj \<Rightarrow> string \<Rightarrow> index_def \<Rightarrow> error + query_params" where
  "unique_query sch new data k index =
     (case index_value (d_properties sch) data (i_hashKey index) of
        Inl e \<Rightarrow> Inl e
      | Inr hcomp \<Rightarrow>
          if \<not> truthy (snd hcomp)
          then Inl (DynormError (''Unique index constraint '' @ k @ '' hashKey '' @ str_of (fst hcomp) @ '' is empty''))
          else
            (case (case i_rangeKey index of
                     None \<Rightarrow> Inr None
                   | Some r \<Rightarrow>
                       if r = [] then Inr None
                       else (case index_value (d_properties sch) data r of
                               Inl e \<Rightarrow> Inl e
                             | Inr rcomp \<Rightarrow>
                                 if \<not> truthy (snd rcomp)
                                 then Inl (DynormError (''Unique index constraint '' @ k @ '' rangeKey ''
                                             @ str_of (fst rcomp) @ '' is empty''))
                                 else Inr (Some rcomp))) of
               Inl e \<Rightarrow> Inl e
             | Inr rcomp \<Rightarrow>
                 Inr (if new then key_condition sch k hcomp rcomp
                      else own_key_filter sch data (key_condition sch k hcomp rcomp))))"

text \<open>Lines 352-415, one pass: a match on a unique index is an error.\<close>

definition unique_step :: "store_client \<Rightarrow> schema \<Rightarrow> bool \<Rightarrow> jsobj \<Rightarrow> string \<Rightarrow> unit \<Rightarrow> error + unit" where
  "unique_step client sch new data k u =
     (case map_of (d_indexes sch) k of
        None \<Rightarrow> Inr ()
      | Some index \<Rightarrow>
          if \<not> i_unique index then Inr ()
          else
            (case unique_query sch new data k index of
               Inl e \<Rightarrow> Inl e
             | Inr q \<Rightarrow>
                 (case sc_query client q of
                    Inl msg \<Rightarrow> Inl (StoreError msg)
                  | Inr n \<Rightarrow>
                      if n \<noteq> 0 then Inl (DynormError (''Unique index constraint '' @ k))
                      else Inr ())))"

definition check_unique :: "store_client \<Rightarrow> schema \<Rightarrow> bool \<Rightarrow> jsobj \<Rightarrow> error + unit" where
  "check_unique client sch new data =
     for_in (unique_step client sch new data) (obj_keys (d_indexes sch)) ()"

text \<open>Lines 417-425.\<close>

definition stamp :: "runtime \<Rightarrow> schema \<Rightarrow> bool \<Rightarrow> jsobj \<Rightarrow> jsobj \<Rightarrow> jsobj" where
  "stamp rt sch new orig data =
     (if \<not> d_timestamps sch then data
      else if new
        then obj_set (obj_set data ''createdAt'' (JDate (r_clock rt ''createdAt'')))
               ''updatedAt'' (JDate (r_clock rt ''updatedAt''))
      else obj_set (obj_set data ''createdAt'' (obj_get orig ''createdAt''))
             ''updatedAt'' (obj_get orig ''updatedAt''))"

text \<open>\<^verbatim>\<open>params.Item[ver]++\<close> and \<^verbatim>\<open>orig[ver].getTime()\<close>. A number is a double: the
  successor of an integer \<open>n\<close> is exact for \<open>-2^53 \<le> n < 2^53\<close>, and rounded by the runtime
  elsewhere.\<close>

definition successor :: "runtime \<Rightarrow> int \<Rightarrow> int" where
  "successor rt n =
     (if - 9007199254740992 \<le> n \<and> n < 9007199254740992 then n + 1 else r_round rt (n + 1))"

fun increment :: "runtime \<Rightarrow> jsval \<Rightarrow> jsval" where
  "increment rt (JNum n) = JNum (successor rt n)"
| "increment rt JNaN = JNaN"
| "increment rt v = (case r_toNumber rt v of JNum n \<Rightarrow> JNum (successor rt n) | _ \<Rightarrow> JNaN)"

fun getTime :: "jsval \<Rightarrow> error + jsval" where
  "getTime (JDate t) = Inr (JNum t)"
| "getTime JInvalidDate = Inr JNaN"
| "getTime _ = Inl TypeError"

text \<open>Line 434 and its like: \<^verbatim>\<open>(params.ConditionExpression) ? ' AND ' : ''\<close>.\<close>

definition and_or_empty :: "string option \<Rightarrow> string" where
  "and_or_empty c = (case c of None \<Rightarrow> [] | Some e \<Rightarrow> if e = [] then [] else '' AND '')"

definition unsupported :: "property \<Rightarrow> error" where
  "unsupported prop = DynormError (''Version property type '' @ str_of (p_type prop) @ '' not supported'')"

text \<open>Lines 429-457.\<close>

definition version_put :: "runtime \<Rightarrow> schema \<Rightarrow> jsobj \<Rightarrow> put_params \<Rightarrow> error + put_params" where
  "version_put rt sch orig params =
     (case version_attr sch of
        None \<Rightarrow> Inr params
      | Some ver \<Rightarrow>
          (case map_of (d_properties sch) ver of
             None \<Rightarrow> Inl TypeError
           | Some prop \<Rightarrow>
               if truthy (obj_get orig ver)
               then
                 (let p1 = params\<lparr>pt_ConditionExpression :=
                                     Some (and_or_empty (pt_ConditionExpression params) @ ''#'' @ ver @ '' = :'' @ ver),
                                   pt_ExpressionAttributeNames :=
                                     Some (obj_set (case pt_ExpressionAttributeNames params of None \<Rightarrow> [] | Some ns \<Rightarrow> ns)
                                             (''#'' @ ver) (JStr ver)),
                                   pt_ExpressionAttributeValues :=
                                     Some (case pt_ExpressionAttributeValues params of None \<Rightarrow> [] | Some vs \<Rightarrow> vs)\<rparr>;
                      vals = (case pt_ExpressionAttributeValues p1 of None \<Rightarrow> [] | Some vs \<Rightarrow> vs)
                  in if p_type prop = Some ''integer''
                     then Inr (p1\<lparr>pt_ExpressionAttributeValues := Some (obj_set vals ('':'' @ ver) (obj_get orig ver)),
                                  pt_Item := obj_set (pt_Item p1) ver (increment rt (obj_get (pt_Item p1) ver))\<rparr>)
                     else if p_type prop = Some ''string'' \<and> p_format prop = Some ''date-time''
                     then (case getTime (obj_get orig ver) of
                             Inl e \<Rightarrow> Inl e
                           | Inr t \<Rightarrow>
                               Inr (p1\<lparr>pt_ExpressionAttributeValues := Some (obj_set vals ('':'' @ ver) t),
                                       pt_Item := obj_set (pt_Item p1) ver (JNum (r_clock rt ver))\<rparr>))
                     else Inl (unsupported prop))
               else if obj_get (pt_Item params) ver = JUndefined
               then (if p_type prop = Some ''integer''
                     then Inr (params\<lparr>pt_Item := obj_set (pt_Item params) ver (JNum 1)\<rparr>)
                     else if p_type prop = Some ''string'' \<and> p_format prop = Some ''date-time''
                     then Inr (params\<lparr>pt_Item := obj_set (pt_Item params) ver (JNum (r_clock rt ver))\<rparr>)
                     else Inl (unsupported prop))
               else Inr params))"

text \<open>Lines 459-470. Line 466 assigns the separator to the condition where line 463
  had put the clause for the hash key.\<close>

definition create_guard :: "schema \<Rightarrow> put_params \<Rightarrow> put_params" where
  "create_guard sch params =
     (let hk = str_of (key_hashKey sch);
          p1 = params\<lparr>pt_ExpressionAttributeNames :=
                        Some (obj_set (case pt_ExpressionAttributeNames params of None \<Rightarrow> [] | Some ns \<Rightarrow> ns)
                                (''#'' @ hk) (name_val (key_hashKey sch))),
                      pt_ConditionExpression :=
                        Some (and_or_empty (pt_ConditionExpression params) @ ''attribute_not_exists(#'' @ hk @ '')'')\<rparr>
      in case key_rangeKey sch of
           None \<Rightarrow> p1
         | Some rk \<Rightarrow>
             if rk = [] then p1
             else p1\<lparr>pt_ConditionExpression :=
                        Some (and_or_empty (pt_ConditionExpression p1) @ ''attribute_not_exists(#'' @ rk @ '')''),
                      pt_ExpressionAttributeNames :=
                        Some (obj_set (case pt_ExpressionAttributeNames p1 of None \<Rightarrow> [] | Some ns \<Rightarrow> ns)
                                (''#'' @ rk) (JStr rk))\<rparr>)"

text \<open>\<^verbatim>\<open>save()\<close>. \<open>validate\<close> is the compiled validator, applied to the JSON form of the
  data: it answers with nothing or with its errors. The result is the request that was
  put, with the data of the entity as the call leaves it. The schema is taken not to
  have a property named like a method of the entity, which an accessor would hide.\<close>

definition save :: "runtime \<Rightarrow> (string \<Rightarrow> schema option) \<Rightarrow> store_client \<Rightarrow> (jsobj \<Rightarrow> string option)
    \<Rightarrow> schema \<Rightarrow> entity \<Rightarrow> error + put_params \<times> jsobj" where
  "save rt models client validate sch ent =
     (case resolve_relations rt models client sch (e_data ent) of
        Inl e \<Rightarrow> Inl e
      | Inr data1 \<Rightarrow>
          (case validate data1 of
             Some errors \<Rightarrow> Inl (DynormError errors)
           | None \<Rightarrow>
               (case check_unique client sch (is_new sch ent) data1 of
                  Inl e \<Rightarrow> Inl e
                | Inr u \<Rightarrow>
                    let data2 = stamp rt sch (is_new sch ent) (e_orig ent) data1
                    in (case toDynamo sch data2 of
                          Inl e \<Rightarrow> Inl e
                        | Inr item \<Rightarrow>
                            (case version_put rt sch (e_orig ent)
                                    \<lparr>pt_TableName = d_tableName sch, pt_Item = item,
                                      pt_ConditionExpression = None, pt_ExpressionAttributeNames = None,
                                      pt_ExpressionAttributeValues = None\<rparr> of
                               Inl e \<Rightarrow> Inl e
                             | Inr p1 \<Rightarrow>
                                 let p2 = (if is_new sch ent then create_guard sch p1 else p1)
                                 in (case sc_put client p2 of
                                       Some msg \<Rightarrow> Inl (StoreError msg)
                                     | None \<Rightarrow> Inr (p2, data2)))))))"

section \<open>The store's reading of a query and a put\<close>

text \<open>The store is an external collaborator. To follow an item from the put that stores
  it to the query that looks for it, this is its documented behaviour for the requests
  built above. A table has a name, the attributes of its primary key and its items. A
  condition is a list of clauses joined by \<^verbatim>\<open>AND\<close>: \<^verbatim>\<open>#n = :v\<close> and \<^verbatim>\<open>#n <> :v\<close> compare the
  attribute bound to \<^verbatim>\<open>#n\<close> with the value bound to \<^verbatim>\<open>:v\<close>, and \<^verbatim>\<open>attribute_not_exists(#n)\<close>
  holds where there is no item or the item has no such attribute. A value is equal to
  itself only: the number that line 208 stores for a Date is not the Date object.\<close>

record table =
  t_name :: jsval
  t_key :: "string list"
  t_items :: "jsobj list"

definition comparison :: "jsobj \<Rightarrow> jsobj \<Rightarrow> jsobj option \<Rightarrow> string \<Rightarrow> string \<Rightarrow> bool \<Rightarrow> bool option" where
  "comparison names vals item lhs rhs eq =
     (case map_of names lhs of
        Some (JStr attr) \<Rightarrow>
          (case map_of vals rhs of
             Some v \<Rightarrow> Some ((case item of None \<Rightarrow> False | Some i \<Rightarrow> map_of i attr = Some v) = eq)
           | None \<Rightarrow> None)
      | _ \<Rightarrow> None)"

definition condition_clause :: "jsobj \<Rightarrow> jsobj \<Rightarrow> jsobj option \<Rightarrow> string \<Rightarrow> bool option" where
  "condition_clause names vals item clause =
     (if take 21 clause = ''attribute_not_exists('' \<and> drop (length clause - 1) clause = '')''
      then (case map_of names (take (length clause - 22) (drop 21 clause)) of
              Some (JStr attr) \<Rightarrow> Some (case item of None \<Rightarrow> True | Some i \<Rightarrow> map_of i attr = None)
            | _ \<Rightarrow> None)
      else (case split_on '' = '' 0 [] clause of
              [lhs, rhs] \<Rightarrow> comparison names vals item lhs rhs True
            | _ \<Rightarrow>
                (case split_on '' <> '' 0 [] clause of
                   [lhs, rhs] \<Rightarrow> comparison names vals item lhs rhs False
                 | _ \<Rightarrow> None)))"

text \<open>Whether a condition holds of an item, or of no item; \<open>None\<close> when the store cannot
  read it.\<close>

definition condition :: "jsobj \<Rightarrow> jsobj \<Rightarrow> jsobj option \<Rightarrow> string \<Rightarrow> bool option" where
  "condition names vals item expr =
     (let cs = map (condition_clause names vals item) (split_on '' AND '' 0 [] expr)
      in if None \<in> set cs then None else Some (list_all (\<lambda>c. c = Some True) cs))"

definition same_key :: "string list \<Rightarrow> jsobj \<Rightarrow> jsobj \<Rightarrow> bool" where
  "same_key ks a b = list_all (\<lambda>k. map_of a k = map_of b k) ks"

definition table_get :: "table \<Rightarrow> jsval \<Rightarrow> jsobj \<Rightarrow> string + jsobj option" where
  "table_get tb name key =
     (if name \<noteq> t_name tb then Inl ''ResourceNotFoundException''
      else Inr (find (same_key (t_key tb) key) (t_items tb)))"

text \<open>A query counts the items that satisfy the key condition and the filter.\<close>

definition table_query :: "table \<Rightarrow> query_params \<Rightarrow> string + int" where
  "table_query tb q =
     (let expr = (case q_FilterExpression q of
                    None \<Rightarrow> q_KeyConditionExpression q
                  | Some f \<Rightarrow> q_KeyConditionExpression q @ '' AND '' @ f);
          holds = (\<lambda>item. condition (q_ExpressionAttributeNames q) (q_ExpressionAttributeValues q) item expr)
      in if q_TableName q \<noteq> t_name tb then Inl ''ResourceNotFoundException''
         else if holds None = None then Inl ''ValidationException''
         else Inr (int (length (filter (\<lambda>i. holds (Some i) = Some True) (t_items tb)))))"

text \<open>A put checks its condition against the item that has the primary key of the new
  one, and replaces that item or adds the new one.\<close>

definition table_put :: "table \<Rightarrow> put_params \<Rightarrow> string + table" where
  "table_put tb p =
     (let names = (case pt_ExpressionAttributeNames p of None \<Rightarrow> [] | Some ns \<Rightarrow> ns);
          vals = (case pt_ExpressionAttributeValues p of None \<Rightarrow> [] | Some vs \<Rightarrow> vs);
          old = find (same_key (t_key tb) (pt_Item p)) (t_items tb);
          ok = (case pt_ConditionExpression p of
                  None \<Rightarrow> Some True
                | Some c \<Rightarrow> condition names vals old c)
      in if pt_TableName p \<noteq> t_name tb then Inl ''ResourceNotFoundException''
         else case ok of
           None \<Rightarrow> Inl ''ValidationException''
         | Some False \<Rightarrow> Inl ''ConditionalCheckFailedException''
         | Some True \<Rightarrow>
             Inr (tb\<lparr>t_items := filter (\<lambda>i. \<not> same_key (t_key tb) (pt_Item p) i) (t_items tb) @ [pt_Item p]\<rparr>))"

text \<open>The client of a store that holds the table \<open>tb\<close>.\<close>

definition table_client :: "table \<Rightarrow> store_client" where
  "table_client tb =
     \<lparr>sc_get = table_get tb,
      sc_query = table_query tb,
      sc_put = (\<lambda>p. case table_put tb p of Inl msg \<Rightarrow> Some msg | Inr tb' \<Rightarrow> None)\<rparr>"

section \<open>Example data\<close>

text \<open>Schemas and records for the concrete instances below.\<close>

definition scalar_prop :: "string \<Rightarrow> jsval \<Rightarrow> property" where
  "scalar_prop ty dflt = \<lparr>p_type = Some ty, p_format = None, p_default = dflt,
       p_hashKey = False, p_rangeKey = False, p_version = False, p_owner = False,
       p_ref = None, p_join = None, p_required = JUndefined\<rparr>"


definition relation_prop :: "string \<Rightarrow> (string \<times> string) list \<Rightarrow> property" where
  "relation_prop ref join = \<lparr>p_type = None, p_format = None, p_default = JUndefined,
       p_hashKey = False, p_rangeKey = False, p_version = False, p_owner = False,
       p_ref = Some ref, p_join = Some join, p_required = JUndefined\<rparr>"

definition task_schema :: schema where
  "task_schema = \<lparr>d_id = Some ''Task'',
     d_properties = [(''id'', (scalar_prop ''string'' JUndefined)\<lparr>p_hashKey := True\<rparr>),
                     (''title'', scalar_prop ''string'' JUndefined),
                     (''due'', (scalar_prop ''string'' JUndefined)\<lparr>p_format := Some ''date-time''\<rparr>),
                     (''owner'', relation_prop ''User'' [(''ownerId'', ''id'')])],
     d_required = JUndefined, d_tableName = JStr ''tasks'', d_timestamps = False, d_indexes = []\<rparr>"

definition team_schema :: schema where
  "team_schema = \<lparr>d_id = Some ''Member'',
     d_properties = [(''id'', (scalar_prop ''string'' JUndefined)\<lparr>p_hashKey := True\<rparr>),
                     (''team'', relation_prop ''Team'' [(''teamId'', ''id''), (''teamRegion'', ''region'')])],
     d_required = JUndefined, d_tableName = JStr ''members'', d_timestamps = False, d_indexes = []\<rparr>"

text \<open>A runtime that parses one ISO-8601 string.\<close>

definition iso_parse :: "jsval \<Rightarrow> int option" where
  "iso_parse v = (if v = JStr ''2020-01-01T00:00:00.000Z'' then Some 1577836800000 else None)"

definition user_schema :: schema where
  "user_schema = \<lparr>d_id = Some ''User'',
     d_properties = [(''id'', (scalar_prop ''string'' JUndefined)\<lparr>p_hashKey := True\<rparr>),
                     (''email'', scalar_prop ''string'' JUndefined),
                     (''version'', (scalar_prop ''integer'' JUndefined)\<lparr>p_version := True\<rparr>)],
     d_required = JUndefined, d_tableName = JStr ''users'', d_timestamps = False,
     d_indexes = [(''byEmail'', \<lparr>i_hashKey = ''email'', i_rangeKey = None, i_unique = True\<rparr>)]\<rparr>"

text \<open>A store that holds one item and answers an update with the item as it then is.\<close>

definition one_item_store :: "jsobj \<Rightarrow> update_params \<Rightarrow> string + jsobj" where
  "one_item_store stored params =
     (case store_set params stored of
        Inl e \<Rightarrow> Inl ''ValidationException''
      | Inr item \<Rightarrow> Inr [(''Attributes'', JObj item)])"


text \<open>A table of four items that the store scans in two pages; its state counts the
  requests.\<close>

definition two_page_client :: "nat find_client" where
  "two_page_client =
     \<lparr>c_query = (\<lambda>n params. (Inl ''ValidationException'', n + 1)),
      c_scan = (\<lambda>n params.
         case f_ExclusiveStartKey params of
           None \<Rightarrow> (Inr \<lparr>p_Items = [JStr ''a'', JStr ''b'', JStr ''c''], p_ScannedCount = 3,
                          p_LastEvaluatedKey = Some (JObj [(''id'', JStr ''c'')])\<rparr>, n + 1)
         | Some tok \<Rightarrow> (Inr \<lparr>p_Items = [JStr ''d''], p_ScannedCount = 1, p_LastEvaluatedKey = None\<rparr>,
                          n + 1))\<rparr>"

definition scan_params :: "int \<Rightarrow> find_params" where
  "scan_params l = \<lparr>f_TableName = JStr ''letters'', f_KeyConditionExpression = None,
     f_Limit = Some l, f_ExclusiveStartKey = None, f_other = []\<rparr>"

definition no_opts :: find_opts where
  "no_opts = \<lparr>o_filter = None, o_map = None, o_reduce = None, o_initialValue = JUndefined\<rparr>"

definition only_a :: find_opts where
  "only_a = no_opts\<lparr>o_filter := Some (\<lambda>v. v = JStr ''a'')\<rparr>"

definition empty_acc :: find_acc where
  "empty_acc = \<lparr>a_Items = [], a_ScannedCount = 0, a_Count = None, a_Accumulator = JUndefined,
     a_LastEvaluatedKey = None\<rparr>"



text \<open>A schema with a hash key and a range key, a runtime, a validator that accepts
  everything and a store that holds nothing and accepts every put.\<close>

definition order_schema :: schema where
  "order_schema = \<lparr>d_id = Some ''Order'',
     d_properties = [(''customer'', (scalar_prop ''string'' JUndefined)\<lparr>p_hashKey := True\<rparr>),
                     (''orderNo'', (scalar_prop ''string'' JUndefined)\<lparr>p_rangeKey := True\<rparr>),
                     (''total'', scalar_prop ''integer'' JUndefined)],
     d_required = JUndefined, d_tableName = JStr ''orders'', d_timestamps = False, d_indexes = []\<rparr>"

definition fixed_runtime :: runtime where
  "fixed_runtime = \<lparr>r_parse = (\<lambda>v. None), r_clock = (\<lambda>k. 1700000000000), r_toNumber = (\<lambda>v. JNaN),
     r_round = (\<lambda>n. n)\<rparr>"

definition accept_all :: "jsobj \<Rightarrow> string option" where
  "accept_all data = None"

definition empty_store :: store_client where
  "empty_store = \<lparr>sc_get = (\<lambda>t k. Inr None), sc_query = (\<lambda>q. Inr 0), sc_put = (\<lambda>p. None)\<rparr>"

definition new_entity :: "jsobj \<Rightarrow> entity" where
  "new_entity data = \<lparr>e_isNew = True, e_data = data, e_orig = data\<rparr>"

text \<open>A store that refuses every update.\<close>

definition refusing_store :: "update_params \<Rightarrow> string + jsobj" where
  "refusing_store params = Inl ''ValidationException''"



definition users :: table where
  "users = \<lparr>t_name = JStr ''users'', t_key = [''id''], t_items = []\<rparr>"

definition no_models :: "string \<Rightarrow> schema option" where
  "no_models name = None"

text \<open>A schema whose relation joins on an attribute of its own name, and a schema with a
  property named like a member of \<^verbatim>\<open>Object.prototype\<close>.\<close>

definition card_schema :: schema where
  "card_schema = \<lparr>d_id = Some ''Card'',
     d_properties = [(''id'', (scalar_prop ''string'' JUndefined)\<lparr>p_hashKey := True\<rparr>),
                     (''owner'', relation_prop ''User'' [(''owner'', ''id'')])],
     d_required = JUndefined, d_tableName = JStr ''cards'', d_timestamps = False, d_indexes = []\<rparr>"

definition shape_schema :: schema where
  "shape_schema = \<lparr>d_id = Some ''Shape'',
     d_properties = [(''id'', (scalar_prop ''string'' JUndefined)\<lparr>p_hashKey := True\<rparr>),
                     (''toString'', scalar_prop ''string'' JUndefined)],
     d_required = JUndefined, d_tableName = JStr ''shapes'', d_timestamps = False, d_indexes = []\<rparr>"

section \<open>Objects\<close>

lemma obj_get_obj_set: "obj_get (obj_set d k v) k' = (if k' = k then v else obj_get d k')"
  by (simp add: obj_get_def obj_set_def update_conv')

lemma distinct_obj_keys: "distinct (obj_keys obj)"
  by (simp add: obj_keys_def)

lemma set_obj_keys: "set (obj_keys obj) = fst ` set obj"
  by (simp add: obj_keys_def)

section \<open>Loops\<close>

text \<open>A loop whose pass for \<open>k\<close> touches the attribute \<open>k\<close> only.\<close>

lemma for_in_get:
  assumes step: "\<And>k s s' k'. body k s = Inr s' \<Longrightarrow>
            obj_get s' k' = (if k' = k then F s k else obj_get s k')"
      and frame: "\<And>k s s' k'. body k s = Inr s' \<Longrightarrow> k' \<noteq> k \<Longrightarrow> F s' k' = F s k'"
      and "distinct ks" and "for_in body ks s = Inr s'"
  shows "obj_get s' k = (if k \<in> set ks then F s k else obj_get s k)"
  using assms(3,4)
proof (induction ks arbitrary: s)
  case Nil
  then show ?case by simp
next
  case (Cons a ks)
  from Cons.prems obtain s1 where b: "body a s = Inr s1" and l: "for_in body ks s1 = Inr s'"
    by (auto split: sum.splits)
  have dk: "distinct ks" and a: "a \<notin> set ks" using Cons.prems by auto
  note ih = Cons.IH [OF dk l]
  show ?case
  proof (cases "k = a")
    case True
    with a ih step [OF b, of k] show ?thesis by simp
  next
    case False
    with step [OF b, of k] frame [OF b, of k] ih show ?thesis by simp
  qed
qed

lemma for_in_total:
  assumes "\<And>k s s'. k \<in> set ks \<Longrightarrow> I s \<Longrightarrow> body k s = Inr s' \<Longrightarrow> I s'"
      and "\<And>k s. k \<in> set ks \<Longrightarrow> I s \<Longrightarrow> \<exists>s'. body k s = Inr s'"
      and "I s"
  shows "\<exists>s'. for_in body ks s = Inr s'"
  using assms
proof (induction ks arbitrary: s)
  case Nil
  then show ?case by simp
next
  case (Cons a ks)
  from Cons.prems(2) [of a s] Cons.prems(3) obtain s1 where b: "body a s = Inr s1" by auto
  with Cons.prems(1) [of a s s1] Cons.prems(3) have "I s1" by simp
  with Cons.IH [of s1] Cons.prems(1,2) obtain s' where "for_in body ks s1 = Inr s'"
    by (metis list.set_intros(2))
  with b show ?case by simp
qed

section \<open>Defaults in the constructor\<close>






section \<open>The round trip of a record\<close>

lemma obj_get_Nil [simp]: "obj_get [] k = JUndefined"
  by (simp add: obj_get_def)

lemma obj_get_defined: "obj_get r k \<noteq> JUndefined \<Longrightarrow> map_of r k = Some (obj_get r k)"
  by (auto simp: obj_get_def split: option.splits)

lemma map_of_obj_set: "map_of (obj_set d k v) = (map_of d)(k \<mapsto> v)"
  by (simp add: obj_set_def update_conv')


lemma parseDynamo_step_get:
  "parseDynamo_step parse props item k m = Inr m' \<Longrightarrow>
   obj_get m' k' = (if k' = k then pd_value parse props item m k else obj_get m k')"
  by (auto simp: parseDynamo_step_def pd_value_def obj_get_obj_set
           split: if_splits option.splits prod.splits)

lemma pd_value_frame:
  "parseDynamo_step parse props item k m = Inr m' \<Longrightarrow> k' \<noteq> k \<Longrightarrow>
   pd_value parse props item m' k' = pd_value parse props item m k'"
  using parseDynamo_step_get [of parse props item k m m' k']
  by (auto simp: pd_value_def split: option.splits prod.splits)

lemma parseDynamo_get:
  assumes "parseDynamo parse sch item = Inr m"
  shows "obj_get m k = pd_value parse (d_properties sch) item [] k"
proof -
  from for_in_get [where F = "pd_value parse (d_properties sch) item" and k = k,
      OF parseDynamo_step_get pd_value_frame distinct_obj_keys assms [unfolded parseDynamo_def]]
  have "obj_get m k = (if k \<in> set (obj_keys (d_properties sch))
          then pd_value parse (d_properties sch) item [] k else JUndefined)"
    by simp
  moreover have "k \<notin> set (obj_keys (d_properties sch)) \<Longrightarrow>
      pd_value parse (d_properties sch) item [] k = JUndefined"
    by (auto simp: pd_value_def set_obj_keys map_of_eq_None_iff [symmetric] split: option.splits)
  ultimately show ?thesis by auto
qed

lemma single_pair_Some: "single_pair j = Some kv \<longleftrightarrow> j = Some [kv]"
  by (cases j rule: single_pair.cases) auto

lemma mem_obj_keys: "map_of props k = Some p \<Longrightarrow> k \<in> set (obj_keys props)"
  by (auto simp: set_obj_keys dest: map_of_SomeD intro: rev_image_eqI)

lemma single_joinsD:
  assumes "single_joins props" and "map_of props k = Some p" and "has_ref p"
  shows "\<exists>key fk. p_join p = Some [(key, fk)]"
proof -
  from assms mem_obj_keys [OF assms(2)] have "single_pair (p_join p) \<noteq> None"
    by (auto simp: single_joins_def list_all_iff)
  then obtain kv where "single_pair (p_join p) = Some kv" by auto
  then show ?thesis by (cases kv) (simp add: single_pair_Some)
qed

lemma obj_read_plain: "plain_name k \<Longrightarrow> obj_read r k = obj_get r k"
  by (simp add: obj_read_def obj_get_def plain_name_def split: option.splits)

lemma obj_read_own [simp]: "obj_read ((k, v) # r) k = v"
  by (simp add: obj_read_def)

lemma plain_namesD:
  assumes "plain_names props" and "map_of props k = Some p"
  shows "plain_name k"
    and "has_ref p \<Longrightarrow> p_join p = Some [(key, fk)] \<Longrightarrow> plain_name key"
  using assms mem_obj_keys [OF assms(2)]
  by (auto simp: plain_names_def list_all_iff)

lemma parseDynamo_total:
  assumes "single_joins (d_properties sch)"
  shows "\<exists>m. parseDynamo parse sch item = Inr m"
  unfolding parseDynamo_def
proof (rule for_in_total [where I = "\<lambda>_. True"])
  fix k s
  assume "k \<in> set (obj_keys (d_properties sch))"
  show "\<exists>s'. parseDynamo_step parse (d_properties sch) item k s = Inr s'"
    using single_joinsD [OF assms, of k]
    by (auto simp: parseDynamo_step_def split: option.splits prod.splits)
qed simp_all

lemma supported_attrI:
  "supported_record props r \<Longrightarrow> map_of r x = Some v \<Longrightarrow> supported_attr props r x"
  by (auto simp: supported_record_def list_all_iff dest: mem_obj_keys)

lemma relation_absent:
  assumes "supported_record props r" and "map_of props k = Some p" and "has_ref p"
  shows "obj_get r k = JUndefined"
proof (cases "map_of r k")
  case None
  then show ?thesis by (simp add: obj_get_def)
next
  case (Some v)
  from supported_attrI [OF assms(1) Some] assms(2,3) show ?thesis
    by (simp add: supported_attr_def)
qed

lemma stored_value_new_Date: "is_epoch v \<Longrightarrow> stored_value (new_Date parse v) = v"
  by (cases v) auto

lemma stored_value_id: "\<not> is_Date v \<Longrightarrow> stored_value v = v"
  by (cases v) auto

lemma toDynamo_step_supported:
  assumes supp: "supported_record (d_properties sch) r"
      and parse: "parseDynamo parse sch r = Inr m"
      and k: "map_of (d_properties sch) k = Some p"
  shows "toDynamo_step (d_properties sch) m k item = Inr (write_back (d_properties sch) r k item)"
proof -
  from supp have pn: "plain_names (d_properties sch)" by (simp add: supported_record_def)
  show ?thesis
  proof (cases "has_ref p")
  case True
  from supp have sj: "single_joins (d_properties sch)" by (simp add: supported_record_def)
  from single_joinsD [OF sj k True] obtain key fk where j: "p_join p = Some [(key, fk)]" by auto
  from pn k True j have pk: "plain_name k" and pkey: "plain_name key"
    by (auto dest: plain_namesD)
  have abs: "obj_get r k = JUndefined" by (rule relation_absent [OF supp k True])
  have fj: "first_join [(key, fk)] = (key, fk)" by (simp add: first_join_def obj_keys_def)
  have mk: "obj_get m k = (if truthy (obj_get r key) then JObj [(fk, obj_get r key)] else JUndefined)"
    using parseDynamo_get [OF parse, of k] k True j abs fj
    by (simp add: pd_value_def obj_read_plain [OF pk] obj_read_plain [OF pkey])
  show ?thesis
    using k True j mk
    by (simp add: toDynamo_step_def write_back_def written_def obj_keys_def join_step_def
          obj_read_plain [OF pk])
next
  case False
  from pn k have pk: "plain_name k" by (rule plain_namesD)
  have mk: "obj_get m k = (if obj_get r k = JUndefined then JUndefined
              else if is_date_format p then new_Date parse (obj_get r k) else obj_get r k)"
    using parseDynamo_get [OF parse, of k] k False by (simp add: pd_value_def obj_read_plain [OF pk])
  note rd = obj_read_plain [OF pk]
  show ?thesis
  proof (cases "obj_get r k = JUndefined")
    case True
    with k False mk show ?thesis
      by (simp add: toDynamo_step_def write_back_def written_def rd)
  next
    case def: False
    from supported_attrI [OF supp obj_get_defined [OF def]] k
    have sa: "\<not> is_Date (obj_get r k)" "is_date_format p \<longrightarrow> is_epoch (obj_get r k)"
      by (simp_all add: supported_attr_def)
    have nd: "new_Date parse (obj_get r k) \<noteq> JUndefined" if "is_epoch (obj_get r k)"
      using that by (cases "obj_get r k") auto
    from sa mk def have "obj_get m k \<noteq> JUndefined" "stored_value (obj_get m k) = obj_get r k"
      using nd by (auto simp: stored_value_new_Date stored_value_id)
    with k False def show ?thesis
      by (simp add: toDynamo_step_def write_back_def written_def rd)
  qed
qed
qed

lemma for_in_pure:
  "(\<And>k s. k \<in> set ks \<Longrightarrow> body k s = Inr (g k s)) \<Longrightarrow> for_in body ks s = Inr (fold g ks s)"
  by (induction ks arbitrary: s) auto

lemma map_of_write_back:
  "map_of (write_back props r a item) x =
     (if written props r a = Some x then Some (obj_get r x) else map_of item x)"
  by (auto simp: write_back_def map_of_obj_set split: option.splits)

lemma map_of_write_back_fold:
  "map_of (fold (write_back props r) ks item) x =
     (if \<exists>k\<in>set ks. written props r k = Some x then Some (obj_get r x) else map_of item x)"
proof (induction ks arbitrary: item)
  case Nil
  then show ?case by simp
next
  case (Cons a ks)
  show ?case
    by (simp add: Cons.IH map_of_write_back)
qed

lemma written_iff:
  assumes "supported_record props r"
  shows "(\<exists>k\<in>set (obj_keys props). written props r k = Some x) \<longleftrightarrow> map_of r x \<noteq> None"
proof
  assume "\<exists>k\<in>set (obj_keys props). written props r k = Some x"
  then obtain k where "written props r k = Some x" by auto
  then have "obj_get r x \<noteq> JUndefined"
    by (auto simp: written_def split: option.splits if_splits prod.splits)
  then show "map_of r x \<noteq> None" by (auto simp: obj_get_def split: option.splits)
next
  assume "map_of r x \<noteq> None"
  then obtain v where v: "map_of r x = Some v" by auto
  note sa = supported_attrI [OF assms v]
  show "\<exists>k\<in>set (obj_keys props). written props r k = Some x"
  proof (cases "map_of props x")
    case (Some p)
    with sa have "written props r x = Some x" by (simp add: written_def supported_attr_def)
    with mem_obj_keys [OF Some] show ?thesis by auto
  next
    case None
    with sa have j: "joins_on props x" and t: "truthy (obj_get r x)"
      by (simp_all add: supported_attr_def)
    from j obtain rk p fk where rk: "rk \<in> set (obj_keys props)" and "map_of props rk = Some p"
      "has_ref p" "single_pair (p_join p) = Some (x, fk)"
      by (auto simp: joins_on_def list_ex_iff split: option.splits)
    with t have "written props r rk = Some x" by (simp add: written_def)
    with rk show ?thesis by blast
  qed
qed

text \<open>
  C4 (as amended). Let every relation of the schema join on one attribute pair, and let
  no property, join attribute or joined key of the schema be named like a member of
  \<^verbatim>\<open>Object.prototype\<close>. Let every attribute of the record \<open>r\<close> hold a value that is neither
  \<^verbatim>\<open>undefined\<close> nor a Date object, and be either named by a property of the schema that is
  not a relation, holding an integer of epoch milliseconds in the range of time values
  when the format of the property is a date, or named by no property of the schema and
  the join attribute of a relation, holding a truthy value. Then
  \<^verbatim>\<open>toDynamo(parseDynamo(r))\<close> returns a record with exactly the attributes and values of
  \<open>r\<close>; a relation goes through its join attribute.
\<close>

theorem roundtrip_supported:
  assumes "supported_record (d_properties sch) r"
  shows "\<exists>item. roundtrip parse sch r = Inr item \<and> map_of item = map_of r"
proof -
  from assms have "single_joins (d_properties sch)" by (simp add: supported_record_def)
  from parseDynamo_total [OF this] obtain m where m: "parseDynamo parse sch r = Inr m" by blast
  have step: "toDynamo_step (d_properties sch) m k s = Inr (write_back (d_properties sch) r k s)"
    if "k \<in> set (obj_keys (d_properties sch))" for k s
  proof -
    from that obtain p where "map_of (d_properties sch) k = Some p"
      by (cases "map_of (d_properties sch) k") (auto simp: set_obj_keys map_of_eq_None_iff)
    then show ?thesis by (rule toDynamo_step_supported [OF assms m])
  qed
  have t: "toDynamo sch m = Inr (fold (write_back (d_properties sch) r) (obj_keys (d_properties sch)) [])"
    unfolding toDynamo_def by (rule for_in_pure) (rule step)
  have "map_of (fold (write_back (d_properties sch) r) (obj_keys (d_properties sch)) []) x = map_of r x" for x
    unfolding map_of_write_back_fold using written_iff [OF assms, of x]
    by (auto simp: obj_get_def)
  with m t show ?thesis by (auto simp: roundtrip_def)
qed

lemmas ex_defs = task_schema_def team_schema_def card_schema_def shape_schema_def
  scalar_prop_def relation_prop_def roundtrip_def
  parseDynamo_def toDynamo_def parseDynamo_step_def toDynamo_step_def obj_keys_def obj_get_def obj_set_def
  obj_read_def Object_prototype_def
  has_ref_def is_date_format_def first_join_def join_step_def iso_parse_def

theorem roundtrip_supported_witness:
  "supported_record (d_properties task_schema)
     [(''id'', JStr ''t1''), (''title'', JStr []), (''due'', JNum 1577836800000), (''ownerId'', JStr ''u1'')] \<and>
   (\<exists>item. roundtrip iso_parse task_schema
        [(''id'', JStr ''t1''), (''title'', JStr []), (''due'', JNum 1577836800000), (''ownerId'', JStr ''u1'')] = Inr item \<and>
      map_of item = map_of [(''id'', JStr ''t1''), (''title'', JStr []), (''due'', JNum 1577836800000), (''ownerId'', JStr ''u1'')])"
proof -
  have s: "supported_record (d_properties task_schema)
     [(''id'', JStr ''t1''), (''title'', JStr []), (''due'', JNum 1577836800000), (''ownerId'', JStr ''u1'')]"
    by (simp add: task_schema_def scalar_prop_def relation_prop_def supported_record_def single_joins_def
          plain_names_def plain_name_def Object_prototype_def
          supported_attr_def joins_on_def obj_keys_def obj_get_def has_ref_def is_date_format_def)
  from roundtrip_supported [OF s, of iso_parse] s show ?thesis by simp
qed

text \<open>
  C4 as stated fails on records of supported shapes. A join attribute holding \<open>0\<close> is
  dropped (line 231), and so is an attribute holding \<^verbatim>\<open>undefined\<close> (line 237). A date
  attribute holding an ISO-8601 string comes back as a number, one holding a number out
  of the range of time values as \<open>NaN\<close>, and an attribute holding a Date object as a
  number (lines 239 and 208). Of a relation joining on two attribute pairs only the
  first comes back, the second as \<^verbatim>\<open>undefined\<close> (lines 230 and 204). A join attribute
  named like its relation is taken for the related entity and comes back \<^verbatim>\<open>undefined\<close>
  (lines 227 and 204). And for a property named \<^verbatim>\<open>toString\<close> the record gets the
  inherited function as an attribute (lines 237 and 210).
\<close>

theorem roundtrip_counterexample:
  "roundtrip iso_parse task_schema [(''id'', JStr ''t1''), (''ownerId'', JNum 0)]
     = Inr [(''id'', JStr ''t1'')] \<and>
   roundtrip iso_parse task_schema [(''id'', JStr ''t1''), (''title'', JUndefined)]
     = Inr [(''id'', JStr ''t1'')] \<and>
   roundtrip iso_parse task_schema [(''due'', JStr ''2020-01-01T00:00:00.000Z'')]
     = Inr [(''due'', JNum 1577836800000)] \<and>
   roundtrip iso_parse task_schema [(''due'', JNum 8640000000000001)]
     = Inr [(''due'', JNaN)] \<and>
   roundtrip iso_parse task_schema [(''title'', JDate 1577836800000)]
     = Inr [(''title'', JNum 1577836800000)] \<and>
   roundtrip iso_parse team_schema [(''teamId'', JStr ''a''), (''teamRegion'', JStr ''eu'')]
     = Inr [(''teamId'', JStr ''a''), (''teamRegion'', JUndefined)] \<and>
   roundtrip iso_parse card_schema [(''id'', JStr ''t1''), (''owner'', JStr ''u1'')]
     = Inr [(''id'', JStr ''t1''), (''owner'', JUndefined)] \<and>
   roundtrip iso_parse shape_schema [(''id'', JStr ''s1'')]
     = Inr [(''id'', JStr ''s1''), (''toString'', JBuiltin ''toString'')]"
  by (simp add: ex_defs)

section \<open>Reviving dates from JSON\<close>

lemmas re_defs = reISO_test_def is_digit_def tz_ok_def eval_nat_numeral reviver_def

lemma reISO_with_fraction: "reISO_test ''2020-01-01T00:00:00.000Z''"
  by (simp add: re_defs)

lemma parseJSON_is_text: "\<exists>s. parseJSON parse json = JStr s"
  by (simp add: parseJSON_def split: jsval.splits)

text \<open>
  C7, at a failing input. \<^verbatim>\<open>parseJSON('{"a":1}')\<close> does not return the parsed object: it
  returns the text once more encoded as a JSON string, since line 253 calls
  \<^verbatim>\<open>JSON.stringify\<close>. And \<^verbatim>\<open>reviver\<close> leaves \<^verbatim>\<open>2020-01-01T00:00:00Z\<close>, a timestamp of the
  documented pattern without a fraction, a string: the fraction is mandatory in \<^verbatim>\<open>reISO\<close>.
\<close>

theorem parseJSON_does_not_parse:
  \<open>parseJSON parse ''{"a":1}'' =
     JStr (''"{'' @ [CHR 0x5C] @ ''"a'' @ [CHR 0x5C] @ ''":1}"'') \<and>
   reviver parse key (JStr ''2020-01-01T00:00:00Z'') = JStr ''2020-01-01T00:00:00Z''\<close>
  by (simp add: parseJSON_def JSON_quote_def json_escape_def re_defs)

section \<open>The schema compiler\<close>

lemma Schema_absent: "find_definition defs ident = None \<Longrightarrow> Schema engine defs ident = Inl TypeError"
  by (simp add: Schema_def)

text \<open>
  C6, at a failing input. Compiling the entity \<^verbatim>\<open>User\<close> against a document whose only
  definition has the identifier \<^verbatim>\<open>Task\<close> ends in the runtime's \<^verbatim>\<open>TypeError\<close>, raised by
  reading \<^verbatim>\<open>schema.properties\<close> of \<^verbatim>\<open>null\<close> at line 104, before the validation engine
  is reached, and not in an error of the library.
\<close>

theorem Schema_not_found_TypeError:
  "Schema engine [(''Task'', task_schema)] ''User'' = Inl TypeError"
  by (simp add: Schema_def find_definition_def obj_keys_def task_schema_def)

section \<open>The static update\<close>


lemma map_of_obj_delete: "map_of (obj_delete b k) = (map_of b)(k := None)"
  by (simp add: obj_delete_def delete_conv')

lemma map_of_fold_delete:
  "map_of (fold (\<lambda>k b. obj_delete b k) ks b) x = (if x \<in> set ks then None else map_of b x)"
  by (induction ks arbitrary: b) (auto simp: map_of_obj_delete)

lemma map_of_stripped_body:
  "map_of (stripped_body sch key body) x =
     (if x \<in> set (obj_keys key) \<or> version_attr sch = Some x then None else map_of body x)"
  by (auto simp: stripped_body_def map_of_fold_delete map_of_obj_delete split: option.splits)

lemmas upd_defs = update_build_def verb_key_def verb_type_def verb_expression_def version_attr_def
  version_def stripped_body_def assign_step_def version_step_def obj_keys_def obj_get_def obj_set_def
  obj_delete_def user_schema_def scalar_prop_def Let_def

text \<open>
  C1, at a failing input. On the schema whose version is an integer, with the version
  stored at 1, \<^verbatim>\<open>update({id: "u1"}, {$SET: {email: "b@x.com"}})\<close> at the clock reading
  1700000000000 asks the store to set the version to the clock reading: line 567 binds
  \<^verbatim>\<open>:version\<close> to \<^verbatim>\<open>Date.now()\<close> whatever the type of the version property. The email
  becomes \<^verbatim>\<open>b@x.com\<close>, and the stored version 1700000000000 and not 2.
\<close>

theorem update_integer_version_not_advanced:
  "update_build user_schema 1700000000000 [(''id'', JStr ''u1'')] [(''$SET'', [(''email'', JStr ''b@x.com'')])]
     = Inr (\<lparr>u_TableName = JStr ''users'', u_Key = [(''id'', JStr ''u1'')],
             u_ExpressionAttributeNames = [(''#version'', ''version''), (''#email'', ''email'')],
             u_ExpressionAttributeValues =
               [('':version'', JNum 1700000000000), ('':email'', JStr ''b@x.com'')],
             u_ReturnValues = ''ALL_NEW'',
             u_UpdateExpression = ''SET #version = :version, #email = :email'',
             u_ConditionExpression = None\<rparr>,
            [(''$SET'', [(''email'', JStr ''b@x.com'')])]) \<and>
   fst (update user_schema
          (one_item_store [(''id'', JStr ''u1''), (''email'', JStr ''a@x.com''), (''version'', JNum 1)])
          1700000000000 [(''id'', JStr ''u1'')] [(''$SET'', [(''email'', JStr ''b@x.com'')])])
     = Inr (JObj [(''id'', JStr ''u1''), (''email'', JStr ''b@x.com''), (''version'', JNum 1700000000000)])"
  by (simp add: update_def upd_defs one_item_store_def store_set_def store_set_clause_def)

lemma verb_key_first:
  assumes "(t = ''$SET'' \<and> map_of upd ''$SET'' = Some body) \<or>
           (t = ''$ADD'' \<and> map_of upd ''$SET'' = None \<and> map_of upd ''$ADD'' = Some body) \<or>
           (t = ''$DELETE'' \<and> map_of upd ''$SET'' = None \<and> map_of upd ''$ADD'' = None \<and>
              map_of upd ''$DELETE'' = Some body)"
  shows "verb_key upd = t"
  using assms by (auto simp: verb_key_def verb_type_def)

text \<open>
  C9 (as amended). The static update changes the caller's \<^verbatim>\<open>update\<close> object. Let \<open>t\<close> be the
  first of \<^verbatim>\<open>$SET\<close>, \<^verbatim>\<open>$ADD\<close> and \<^verbatim>\<open>$DELETE\<close> that the object has, with the body \<open>body\<close>.
  After the call, whether the store accepted the request or not, the body under \<open>t\<close> no
  longer has the version attribute nor any attribute named by a property of the key
  argument; its other attributes, a primary-key attribute that the key argument does
  not name among them, and the other entries of the object are as before.
\<close>

theorem update_strips_key_argument:
  assumes "(t = ''$SET'' \<and> map_of upd ''$SET'' = Some body) \<or>
           (t = ''$ADD'' \<and> map_of upd ''$SET'' = None \<and> map_of upd ''$ADD'' = Some body) \<or>
           (t = ''$DELETE'' \<and> map_of upd ''$SET'' = None \<and> map_of upd ''$ADD'' = None \<and>
              map_of upd ''$DELETE'' = Some body)"
  shows "\<exists>body'. map_of (snd (update sch client_update now key upd)) t = Some body' \<and>
     (\<forall>k. map_of body' k =
        (if k \<in> set (obj_keys key) \<or> version_attr sch = Some k then None else map_of body k)) \<and>
     (\<forall>t'. t' \<noteq> t \<longrightarrow>
        map_of (snd (update sch client_update now key upd)) t' = map_of upd t')"
proof -
  have k: "verb_key upd = t" using assms by (rule verb_key_first)
  have b: "map_of upd t = Some body" using assms by auto
  have "snd (update sch client_update now key upd) = obj_set upd t (stripped_body sch key body)"
    using b k by (simp add: update_def update_build_def Let_def split: sum.splits)
  then show ?thesis
    by (simp add: map_of_obj_set map_of_stripped_body)
qed

theorem update_strips_key_argument_witness:
  "(\<exists>body'. map_of (snd (update user_schema refusing_store 1700000000000 [(''id'', JStr ''u1'')]
        [(''$SET'', [(''id'', JStr ''u1''), (''email'', JStr ''b@x.com''), (''version'', JNum 1)])])) ''$SET''
        = Some body' \<and>
      map_of body' ''id'' = None \<and> map_of body' ''version'' = None \<and>
      map_of body' ''email'' = Some (JStr ''b@x.com'')) \<and>
   (\<exists>body'. map_of (snd (update user_schema refusing_store 1700000000000 [(''id'', JStr ''u1'')]
        [(''$ADD'', [(''id'', JStr ''u1''), (''logins'', JNum 1), (''version'', JNum 1)])])) ''$ADD''
        = Some body' \<and>
      map_of body' ''id'' = None \<and> map_of body' ''version'' = None \<and>
      map_of body' ''logins'' = Some (JNum 1)) \<and>
   (\<exists>body'. map_of (snd (update user_schema refusing_store 1700000000000 [(''id'', JStr ''u1'')]
        [(''$DELETE'', [(''id'', JStr ''u1''), (''tags'', JStr ''old''), (''version'', JNum 1)])])) ''$DELETE''
        = Some body' \<and>
      map_of body' ''id'' = None \<and> map_of body' ''version'' = None \<and>
      map_of body' ''tags'' = Some (JStr ''old''))"
proof -
  have v: "version_attr user_schema = Some ''version''"
    by (simp add: version_attr_def version_def user_schema_def scalar_prop_def obj_keys_def)
  have s: "(''$SET'' = ''$SET'' \<and>
       map_of [(''$SET'', [(''id'', JStr ''u1''), (''email'', JStr ''b@x.com''), (''version'', JNum 1)])] ''$SET''
         = Some [(''id'', JStr ''u1''), (''email'', JStr ''b@x.com''), (''version'', JNum 1)]) \<or>
      (''$SET'' = ''$ADD'' \<and>
       map_of [(''$SET'', [(''id'', JStr ''u1''), (''email'', JStr ''b@x.com''), (''version'', JNum 1)])] ''$SET'' = None \<and>
       map_of [(''$SET'', [(''id'', JStr ''u1''), (''email'', JStr ''b@x.com''), (''version'', JNum 1)])] ''$ADD''
         = Some [(''id'', JStr ''u1''), (''email'', JStr ''b@x.com''), (''version'', JNum 1)]) \<or>
      (''$SET'' = ''$DELETE'' \<and>
       map_of [(''$SET'', [(''id'', JStr ''u1''), (''email'', JStr ''b@x.com''), (''version'', JNum 1)])] ''$SET'' = None \<and>
       map_of [(''$SET'', [(''id'', JStr ''u1''), (''email'', JStr ''b@x.com''), (''version'', JNum 1)])] ''$ADD'' = None \<and>
       map_of [(''$SET'', [(''id'', JStr ''u1''), (''email'', JStr ''b@x.com''), (''version'', JNum 1)])] ''$DELETE''
         = Some [(''id'', JStr ''u1''), (''email'', JStr ''b@x.com''), (''version'', JNum 1)])"
    by simp
  have a: "(''$ADD'' = ''$SET'' \<and>
       map_of [(''$ADD'', [(''id'', JStr ''u1''), (''logins'', JNum 1), (''version'', JNum 1)])] ''$SET''
         = Some [(''id'', JStr ''u1''), (''logins'', JNum 1), (''version'', JNum 1)]) \<or>
      (''$ADD'' = ''$ADD'' \<and>
       map_of [(''$ADD'', [(''id'', JStr ''u1''), (''logins'', JNum 1), (''version'', JNum 1)])] ''$SET'' = None \<and>
       map_of [(''$ADD'', [(''id'', JStr ''u1''), (''logins'', JNum 1), (''version'', JNum 1)])] ''$ADD''
         = Some [(''id'', JStr ''u1''), (''logins'', JNum 1), (''version'', JNum 1)]) \<or>
      (''$ADD'' = ''$DELETE'' \<and>
       map_of [(''$ADD'', [(''id'', JStr ''u1''), (''logins'', JNum 1), (''version'', JNum 1)])] ''$SET'' = None \<and>
       map_of [(''$ADD'', [(''id'', JStr ''u1''), (''logins'', JNum 1), (''version'', JNum 1)])] ''$ADD'' = None \<and>
       map_of [(''$ADD'', [(''id'', JStr ''u1''), (''logins'', JNum 1), (''version'', JNum 1)])] ''$DELETE''
         = Some [(''id'', JStr ''u1''), (''logins'', JNum 1), (''version'', JNum 1)])"
    by simp
  have d: "(''$DELETE'' = ''$SET'' \<and>
       map_of [(''$DELETE'', [(''id'', JStr ''u1''), (''tags'', JStr ''old''), (''version'', JNum 1)])] ''$SET''
         = Some [(''id'', JStr ''u1''), (''tags'', JStr ''old''), (''version'', JNum 1)]) \<or>
      (''$DELETE'' = ''$ADD'' \<and>
       map_of [(''$DELETE'', [(''id'', JStr ''u1''), (''tags'', JStr ''old''), (''version'', JNum 1)])] ''$SET'' = None \<and>
       map_of [(''$DELETE'', [(''id'', JStr ''u1''), (''tags'', JStr ''old''), (''version'', JNum 1)])] ''$ADD''
         = Some [(''id'', JStr ''u1''), (''tags'', JStr ''old''), (''version'', JNum 1)]) \<or>
      (''$DELETE'' = ''$DELETE'' \<and>
       map_of [(''$DELETE'', [(''id'', JStr ''u1''), (''tags'', JStr ''old''), (''version'', JNum 1)])] ''$SET'' = None \<and>
       map_of [(''$DELETE'', [(''id'', JStr ''u1''), (''tags'', JStr ''old''), (''version'', JNum 1)])] ''$ADD'' = None \<and>
       map_of [(''$DELETE'', [(''id'', JStr ''u1''), (''tags'', JStr ''old''), (''version'', JNum 1)])] ''$DELETE''
         = Some [(''id'', JStr ''u1''), (''tags'', JStr ''old''), (''version'', JNum 1)])"
    by simp
  from update_strips_key_argument [OF s, of user_schema refusing_store 1700000000000 "[(''id'', JStr ''u1'')]"]
  have 1: "\<exists>body'. map_of (snd (update user_schema refusing_store 1700000000000 [(''id'', JStr ''u1'')]
        [(''$SET'', [(''id'', JStr ''u1''), (''email'', JStr ''b@x.com''), (''version'', JNum 1)])])) ''$SET''
        = Some body' \<and>
      map_of body' ''id'' = None \<and> map_of body' ''version'' = None \<and>
      map_of body' ''email'' = Some (JStr ''b@x.com'')"
    unfolding v by (auto simp: obj_keys_def)
  from update_strips_key_argument [OF a, of user_schema refusing_store 1700000000000 "[(''id'', JStr ''u1'')]"]
  have 2: "\<exists>body'. map_of (snd (update user_schema refusing_store 1700000000000 [(''id'', JStr ''u1'')]
        [(''$ADD'', [(''id'', JStr ''u1''), (''logins'', JNum 1), (''version'', JNum 1)])])) ''$ADD''
        = Some body' \<and>
      map_of body' ''id'' = None \<and> map_of body' ''version'' = None \<and>
      map_of body' ''logins'' = Some (JNum 1)"
    unfolding v by (auto simp: obj_keys_def)
  from update_strips_key_argument [OF d, of user_schema refusing_store 1700000000000 "[(''id'', JStr ''u1'')]"]
  have 3: "\<exists>body'. map_of (snd (update user_schema refusing_store 1700000000000 [(''id'', JStr ''u1'')]
        [(''$DELETE'', [(''id'', JStr ''u1''), (''tags'', JStr ''old''), (''version'', JNum 1)])])) ''$DELETE''
        = Some body' \<and>
      map_of body' ''id'' = None \<and> map_of body' ''version'' = None \<and>
      map_of body' ''tags'' = Some (JStr ''old'')"
    unfolding v by (auto simp: obj_keys_def)
  from 1 2 3 show ?thesis by blast
qed

text \<open>
  C9 as stated fails where the key argument does not name every attribute of the primary
  key. On the schema with the hash key \<^verbatim>\<open>customer\<close> and the range key \<^verbatim>\<open>orderNo\<close>,
  \<^verbatim>\<open>update({customer: "c1"}, {$SET: {orderNo: "o1", total: 5}})\<close> leaves the entry of the
  primary-key attribute \<^verbatim>\<open>orderNo\<close> in the caller's object: line 574 deletes the names
  of the key argument.
\<close>

theorem update_keeps_range_key_counterexample:
  "key_rangeKey order_schema = Some ''orderNo'' \<and>
   update order_schema refusing_store 1700000000000 [(''customer'', JStr ''c1'')]
       [(''$SET'', [(''orderNo'', JStr ''o1''), (''total'', JNum 5)])]
     = (Inl (StoreError ''ValidationException''),
        [(''$SET'', [(''orderNo'', JStr ''o1''), (''total'', JNum 5)])])"
  by (simp add: update_def upd_defs refusing_store_def key_rangeKey_def schema_key_def key_step_def
        order_schema_def)

section \<open>Pagination\<close>

lemma kept_len: "length (page_items opts data) = kept_count opts data"
  by (simp add: page_items_def kept_count_def Let_def split: option.splits)

lemma paginates_find:
  assumes "opts_ok opts" and "paginates kept_count client opts s params acc r"
  shows "Model_find client s params opts acc = Some (Inr (fst r), snd r)"
  using assms(2)
proof (induction rule: paginates.induct)
  case (last_page s params data s1 acc)
  then show ?case using assms(1)
    by (subst Model_find.simps) (simp add: opts_ok_def kept_len)
next
  case (limit_reached s params data s1 tok l acc)
  then show ?case using assms(1)
    by (subst Model_find.simps) (simp add: opts_ok_def kept_len goes_on_def)
next
  case (next_page s params data s1 tok acc r)
  then show ?case using assms(1)
    by (subst Model_find.simps) (auto simp: opts_ok_def kept_len goes_on_def)
qed

lemma find_paginates:
  assumes "Model_find client s params opts acc = Some y"
  shows "\<forall>r s'. y = (Inr r, s') \<longrightarrow> opts_ok opts \<and> paginates kept_count client opts s params acc (r, s')"
proof (rule Model_find.raw_induct
    [where P = "\<lambda>client s params opts acc y.
       \<forall>r s'. y = (Inr r, s') \<longrightarrow> opts_ok opts \<and> paginates kept_count client opts s params acc (r, s')",
     OF _ assms], goal_cases)
  case (1 find client s params opts acc y)
  show ?case
  proof (intro allI impI)
    fix r s'
    assume y: "y = (Inr r, s')"
    from 1(2) y have ok: "opts_ok opts"
      by (auto simp: opts_ok_def split: if_splits)
    with 1(2) y obtain data s1 where f: "fetch client s params = (Inr data, s1)"
      by (cases "fetch client s params") (auto simp: opts_ok_def split: if_splits sum.splits)
    show "opts_ok opts \<and> paginates kept_count client opts s params acc (r, s')"
    proof (cases "p_LastEvaluatedKey data")
      case None
      with 1(2) y ok f
      have "r = (accumulate opts (seed opts acc) data, decrement params (kept_count opts data))" "s' = s1"
        by (auto simp: opts_ok_def kept_len split: if_splits)
      with ok f None show ?thesis by (auto intro: paginates.last_page)
    next
      case (Some tok)
      show ?thesis
      proof (cases "goes_on (decrement params (kept_count opts data))")
        case True
        with 1(2) y ok f Some
        have "find client s1 ((decrement params (kept_count opts data))\<lparr>f_ExclusiveStartKey := Some tok\<rparr>)
                opts (accumulate opts (seed opts acc) data) = Some (Inr r, s')"
          by (auto simp: opts_ok_def kept_len split: if_splits)
        from 1(1) [OF this]
        have "paginates kept_count client opts s1
                ((decrement params (kept_count opts data))\<lparr>f_ExclusiveStartKey := Some tok\<rparr>)
                (accumulate opts (seed opts acc) data) (r, s')" by simp
        moreover from True have "f_Limit (decrement params (kept_count opts data)) = None \<or>
            (\<exists>l. f_Limit (decrement params (kept_count opts data)) = Some l \<and> 0 < l)"
          by (auto simp: goes_on_def split: option.splits)
        ultimately show ?thesis using ok f Some by (auto intro: paginates.next_page)
      next
        case False
        with 1(2) y ok f Some
        have r: "r = ((accumulate opts (seed opts acc) data)\<lparr>a_LastEvaluatedKey := Some tok\<rparr>,
                   decrement params (kept_count opts data))" "s' = s1"
          by (auto simp: opts_ok_def kept_len split: if_splits)
        from False obtain l where "f_Limit (decrement params (kept_count opts data)) = Some l" "l \<le> 0"
          by (auto simp: goes_on_def split: option.splits)
        with ok f Some r show ?thesis by (auto intro: paginates.limit_reached)
      qed
    qed
  qed
qed

text \<open>
  C5 (as amended). \<^verbatim>\<open>Model.find\<close> returns an accumulator exactly when its options are
  admissible and the pagination of the specification, with each page decrementing a
  truthy \<^verbatim>\<open>Limit\<close> by the number of items the page has left after \<^verbatim>\<open>opts.filter\<close>, gives
  that accumulator: the run goes on while the store returns a continuation token and
  no \<^verbatim>\<open>Limit\<close> was given or the remaining \<^verbatim>\<open>Limit\<close> is positive, and otherwise stops with
  the token kept in \<^verbatim>\<open>LastEvaluatedKey\<close> of the accumulator.
\<close>

theorem find_follows_pagination:
  "Model_find client s params opts acc = Some (Inr r, s') \<longleftrightarrow>
     opts_ok opts \<and> paginates kept_count client opts s params acc (r, s')"
  using find_paginates [of client s params opts acc "(Inr r, s')"]
    paginates_find [of opts client s params acc "(r, s')"]
  by auto

lemmas find_defs = two_page_client_def scan_params_def no_opts_def only_a_def empty_acc_def
  fetch_def page_items_def seed_def accumulate_def decrement_def goes_on_def Let_def
  kept_count_def fetched_count_def opts_ok_def

theorem find_follows_pagination_witness:
  "Model_find two_page_client 0 (scan_params 2) no_opts empty_acc =
     Some (Inr (\<lparr>a_Items = [JStr ''a'', JStr ''b'', JStr ''c''], a_ScannedCount = 3, a_Count = Some 3,
                  a_Accumulator = JUndefined, a_LastEvaluatedKey = Some (JObj [(''id'', JStr ''c'')])\<rparr>,
                \<lparr>f_TableName = JStr ''letters'', f_KeyConditionExpression = None, f_Limit = Some (- 1),
                  f_ExclusiveStartKey = None, f_other = []\<rparr>), 1) \<and>
   opts_ok no_opts \<and>
   paginates kept_count two_page_client no_opts 0 (scan_params 2) empty_acc
     ((\<lparr>a_Items = [JStr ''a'', JStr ''b'', JStr ''c''], a_ScannedCount = 3, a_Count = Some 3,
         a_Accumulator = JUndefined, a_LastEvaluatedKey = Some (JObj [(''id'', JStr ''c'')])\<rparr>,
       \<lparr>f_TableName = JStr ''letters'', f_KeyConditionExpression = None, f_Limit = Some (- 1),
         f_ExclusiveStartKey = None, f_other = []\<rparr>), 1)"
proof -
  have "Model_find two_page_client 0 (scan_params 2) no_opts empty_acc =
     Some (Inr (\<lparr>a_Items = [JStr ''a'', JStr ''b'', JStr ''c''], a_ScannedCount = 3, a_Count = Some 3,
                  a_Accumulator = JUndefined, a_LastEvaluatedKey = Some (JObj [(''id'', JStr ''c'')])\<rparr>,
                \<lparr>f_TableName = JStr ''letters'', f_KeyConditionExpression = None, f_Limit = Some (- 1),
                  f_ExclusiveStartKey = None, f_other = []\<rparr>), 1)"
    by (subst Model_find.simps) (simp add: find_defs)
  from this find_follows_pagination [THEN iffD1, OF this] show ?thesis by simp
qed

lemma find_only_a:
  "Model_find two_page_client 0 (scan_params 3) only_a empty_acc =
     Some (Inr (\<lparr>a_Items = [JStr ''a''], a_ScannedCount = 4, a_Count = Some 1,
                  a_Accumulator = JUndefined, a_LastEvaluatedKey = None\<rparr>,
                \<lparr>f_TableName = JStr ''letters'', f_KeyConditionExpression = None, f_Limit = Some 2,
                  f_ExclusiveStartKey = Some (JObj [(''id'', JStr ''c'')]), f_other = []\<rparr>), 2)"
  apply (subst Model_find.simps)
  apply (simp add: find_defs)
  apply (subst Model_find.simps)
  apply (simp add: find_defs)
  done

text \<open>
  C5 as stated fails with a filter. Of a first page of three fetched items the filter
  keeps one, so a \<^verbatim>\<open>Limit\<close> of 3 goes to 2 and not to 0, and a second page is fetched:
  no token is kept, four items were scanned and two requests were made. The pagination
  that decrements by the number of items fetched does not give this result.
\<close>

theorem find_filter_counterexample:
  "Model_find two_page_client 0 (scan_params 3) only_a empty_acc =
     Some (Inr (\<lparr>a_Items = [JStr ''a''], a_ScannedCount = 4, a_Count = Some 1,
                  a_Accumulator = JUndefined, a_LastEvaluatedKey = None\<rparr>,
                \<lparr>f_TableName = JStr ''letters'', f_KeyConditionExpression = None, f_Limit = Some 2,
                  f_ExclusiveStartKey = Some (JObj [(''id'', JStr ''c'')]), f_other = []\<rparr>), 2) \<and>
   \<not> paginates fetched_count two_page_client only_a 0 (scan_params 3) empty_acc
       ((\<lparr>a_Items = [JStr ''a''], a_ScannedCount = 4, a_Count = Some 1,
           a_Accumulator = JUndefined, a_LastEvaluatedKey = None\<rparr>,
         \<lparr>f_TableName = JStr ''letters'', f_KeyConditionExpression = None, f_Limit = Some 2,
           f_ExclusiveStartKey = Some (JObj [(''id'', JStr ''c'')]), f_other = []\<rparr>), 2)"
proof
  show "Model_find two_page_client 0 (scan_params 3) only_a empty_acc =
     Some (Inr (\<lparr>a_Items = [JStr ''a''], a_ScannedCount = 4, a_Count = Some 1,
                  a_Accumulator = JUndefined, a_LastEvaluatedKey = None\<rparr>,
                \<lparr>f_TableName = JStr ''letters'', f_KeyConditionExpression = None, f_Limit = Some 2,
                  f_ExclusiveStartKey = Some (JObj [(''id'', JStr ''c'')]), f_other = []\<rparr>), 2)"
    by (rule find_only_a)
  show "\<not> paginates fetched_count two_page_client only_a 0 (scan_params 3) empty_acc
       ((\<lparr>a_Items = [JStr ''a''], a_ScannedCount = 4, a_Count = Some 1,
           a_Accumulator = JUndefined, a_LastEvaluatedKey = None\<rparr>,
         \<lparr>f_TableName = JStr ''letters'', f_KeyConditionExpression = None, f_Limit = Some 2,
           f_ExclusiveStartKey = Some (JObj [(''id'', JStr ''c'')]), f_other = []\<rparr>), 2)"
  proof
    assume "paginates fetched_count two_page_client only_a 0 (scan_params 3) empty_acc
       ((\<lparr>a_Items = [JStr ''a''], a_ScannedCount = 4, a_Count = Some 1,
           a_Accumulator = JUndefined, a_LastEvaluatedKey = None\<rparr>,
         \<lparr>f_TableName = JStr ''letters'', f_KeyConditionExpression = None, f_Limit = Some 2,
           f_ExclusiveStartKey = Some (JObj [(''id'', JStr ''c'')]), f_other = []\<rparr>), 2)"
    then show False
    proof cases
      case (last_page data)
      then show False by (auto simp: find_defs)
    next
      case (limit_reached data tok l)
      then show False by (auto simp: find_defs)
    next
      case (next_page data s1 tok)
      from next_page(1,3) show False by (auto simp: find_defs)
    qed
  qed
qed

section \<open>Batched reads\<close>































section \<open>Saving an entity\<close>

lemma for_in_first_error:
  "k \<in> set ks \<Longrightarrow> body k () = Inl e \<Longrightarrow>
   \<forall>k' \<in> set (takeWhile (\<lambda>k'. k' \<noteq> k) ks). body k' () = Inr () \<Longrightarrow>
   for_in body ks () = Inl e"
proof (induction ks)
  case Nil
  then show ?case by simp
next
  case (Cons a ks)
  show ?case
  proof (cases "a = k")
    case True
    with Cons.prems show ?thesis by simp
  next
    case False
    with Cons.prems have "body a () = Inr ()" "k \<in> set ks"
      "\<forall>k' \<in> set (takeWhile (\<lambda>k'. k' \<noteq> k) ks). body k' () = Inr ()" by auto
    with Cons.IH Cons.prems(2) show ?thesis by simp
  qed
qed

lemma for_in_some_error:
  "k \<in> set ks \<Longrightarrow> body k () = Inl e \<Longrightarrow> \<exists>e'. for_in body ks () = Inl e'"
proof (induction ks)
  case Nil
  then show ?case by simp
next
  case (Cons a ks)
  show ?case
  proof (cases "body a ()")
    case (Inl e')
    then show ?thesis by simp
  next
    case (Inr u)
    with Cons show ?thesis by (cases "k = a") auto
  qed
qed

text \<open>
  The check of a unique index. Let the relations of an entity resolve and its data
  validate, and let the query that \<^verbatim>\<open>save()\<close> builds for a unique index \<open>k\<close> of the schema
  be answered with a count that is not zero. Then \<^verbatim>\<open>save()\<close> fails and nothing is put;
  when the unique indexes before \<open>k\<close> pass, the failure is the library's error
  \<^verbatim>\<open>Unique index constraint k\<close>.
\<close>

lemma save_fails_on_match:
  assumes rel: "resolve_relations rt models client sch (e_data ent) = Inr data"
      and val: "validate data = None"
      and idx: "map_of (d_indexes sch) k = Some index" and uq: "i_unique index"
      and q: "unique_query sch (is_new sch ent) data k index = Inr qp"
      and cnt: "sc_query client qp = Inr n" and nz: "n \<noteq> 0"
  shows "\<exists>e. save rt models client validate sch ent = Inl e \<and>
            ((\<forall>k' \<in> set (takeWhile (\<lambda>k'. k' \<noteq> k) (obj_keys (d_indexes sch))).
                 unique_step client sch (is_new sch ent) data k' () = Inr ()) \<longrightarrow>
             e = DynormError (''Unique index constraint '' @ k))"
proof -
  have k: "k \<in> set (obj_keys (d_indexes sch))" using idx by (rule mem_obj_keys)
  have step: "unique_step client sch (is_new sch ent) data k () = Inl (DynormError (''Unique index constraint '' @ k))"
    using idx uq q cnt nz by (simp add: unique_step_def)
  from for_in_some_error [where body = "unique_step client sch (is_new sch ent) data", OF k step]
  obtain e' where
    e': "check_unique client sch (is_new sch ent) data = Inl e'"
    by (auto simp: check_unique_def)
  have "check_unique client sch (is_new sch ent) data = Inl (DynormError (''Unique index constraint '' @ k))"
    if "\<forall>k' \<in> set (takeWhile (\<lambda>k'. k' \<noteq> k) (obj_keys (d_indexes sch))).
          unique_step client sch (is_new sch ent) data k' () = Inr ()"
    unfolding check_unique_def
    using k step that
    by (rule for_in_first_error [where body = "unique_step client sch (is_new sch ent) data"])
  with e' have "(\<forall>k' \<in> set (takeWhile (\<lambda>k'. k' \<noteq> k) (obj_keys (d_indexes sch))).
          unique_step client sch (is_new sch ent) data k' () = Inr ()) \<longrightarrow>
        e' = DynormError (''Unique index constraint '' @ k)" by auto
  moreover have "save rt models client validate sch ent = Inl e'"
    using rel val e' by (simp add: save_def)
  ultimately show ?thesis by blast
qed

lemmas save_defs = save_def resolve_relations_def check_unique_def relation_step_def unique_step_def
  unique_query_def index_value_def
  key_condition_def own_key_filter_def stamp_def version_put_def create_guard_def and_or_empty_def
  version_attr_def version_def key_hashKey_def key_rangeKey_def schema_key_def key_step_def
  is_new_def toDynamo_def toDynamo_step_def str_of_def name_val_def
  obj_keys_def obj_get_def obj_read_def Object_prototype_def obj_set_def has_ref_def Let_def
  order_schema_def scalar_prop_def fixed_runtime_def accept_all_def empty_store_def new_entity_def

lemmas store_defs = table_client_def table_query_def table_put_def table_get_def condition_def
  condition_clause_def comparison_def same_key_def no_models_def

text \<open>
  Two users with one address. The first is saved and put into the table; the save of
  the second, against the table that holds the first, finds it on the unique index
  \<^verbatim>\<open>byEmail\<close> and fails.
\<close>

lemma save_second_user_rejected:
  "save fixed_runtime no_models (table_client users) accept_all user_schema
     (new_entity [(''id'', JStr ''u1''), (''email'', JStr ''a@x.com'')])
   = Inr (\<lparr>pt_TableName = JStr ''users'',
            pt_Item = [(''id'', JStr ''u1''), (''email'', JStr ''a@x.com''), (''version'', JNum 1)],
            pt_ConditionExpression = Some ''attribute_not_exists(#id)'',
            pt_ExpressionAttributeNames = Some [(''#id'', JStr ''id'')],
            pt_ExpressionAttributeValues = None\<rparr>,
          [(''id'', JStr ''u1''), (''email'', JStr ''a@x.com'')]) \<and>
   table_put users
     \<lparr>pt_TableName = JStr ''users'',
       pt_Item = [(''id'', JStr ''u1''), (''email'', JStr ''a@x.com''), (''version'', JNum 1)],
       pt_ConditionExpression = Some ''attribute_not_exists(#id)'',
       pt_ExpressionAttributeNames = Some [(''#id'', JStr ''id'')],
       pt_ExpressionAttributeValues = None\<rparr>
   = Inr (users\<lparr>t_items := [[(''id'', JStr ''u1''), (''email'', JStr ''a@x.com''), (''version'', JNum 1)]]\<rparr>) \<and>
   save fixed_runtime no_models
     (table_client (users\<lparr>t_items := [[(''id'', JStr ''u1''), (''email'', JStr ''a@x.com''), (''version'', JNum 1)]]\<rparr>))
     accept_all user_schema
     (new_entity [(''id'', JStr ''u2''), (''email'', JStr ''a@x.com'')])
   = Inl (DynormError ''Unique index constraint byEmail'')"
  by (simp add: save_defs store_defs users_def user_schema_def)

text \<open>
  The save of a stored entity advances an integer version by one and guards the put by
  the version it read (lines 433-441).
\<close>

lemma save_advances_integer_version:
  "save fixed_runtime no_models
     (table_client (users\<lparr>t_items := [[(''id'', JStr ''u1''), (''email'', JStr ''a@x.com''), (''version'', JNum 1)]]\<rparr>))
     accept_all user_schema
     \<lparr>e_isNew = False,
       e_data = [(''id'', JStr ''u1''), (''email'', JStr ''b@x.com''), (''version'', JNum 1)],
       e_orig = [(''id'', JStr ''u1''), (''email'', JStr ''a@x.com''), (''version'', JNum 1)]\<rparr>
   = Inr (\<lparr>pt_TableName = JStr ''users'',
            pt_Item = [(''id'', JStr ''u1''), (''email'', JStr ''b@x.com''), (''version'', JNum 2)],
            pt_ConditionExpression = Some ''#version = :version'',
            pt_ExpressionAttributeNames = Some [(''#version'', JStr ''version'')],
            pt_ExpressionAttributeValues = Some [('':version'', JNum 1)]\<rparr>,
          [(''id'', JStr ''u1''), (''email'', JStr ''b@x.com''), (''version'', JNum 1)])"
  by (simp add: save_defs store_defs users_def user_schema_def successor_def)




text \<open>
  C2, at a failing input. For a new entity of a schema with the hash key \<^verbatim>\<open>customer\<close> and
  the range key \<^verbatim>\<open>orderNo\<close>, the condition of the put request is
  \<^verbatim>\<open> AND attribute_not_exists(#orderNo)\<close>: the clause for the hash key is gone, and what
  is left begins with the separator.
\<close>

theorem save_range_key_guard:
  "save fixed_runtime (\<lambda>n. None) empty_store accept_all order_schema
     (new_entity [(''customer'', JStr ''c1''), (''orderNo'', JStr ''o1''), (''total'', JNum 10)])
   = Inr (\<lparr>pt_TableName = JStr ''orders'',
            pt_Item = [(''customer'', JStr ''c1''), (''orderNo'', JStr ''o1''), (''total'', JNum 10)],
            pt_ConditionExpression = Some '' AND attribute_not_exists(#orderNo)'',
            pt_ExpressionAttributeNames =
              Some [(''#customer'', JStr ''customer''), (''#orderNo'', JStr ''orderNo'')],
            pt_ExpressionAttributeValues = None\<rparr>,
          [(''customer'', JStr ''c1''), (''orderNo'', JStr ''o1''), (''total'', JNum 10)])"
  by (simp add: save_defs)

end
